theory Spec2Isabelle
  imports Complex_Main "HOL-Library.Sublist"
begin

section \<open>Python values\<close>

text \<open>
  A Python float is a finite number, one of the two infinities, or NaN. The finite numbers
  are taken as reals: no statement below depends on rounding. Python's comparisons hold
  of no pair that has a NaN in it, so \<open>==\<close> on floats is not the equality of HOL.
\<close>

datatype pyfloat = Finite real | PosInf | NegInf | NaN

fun float_eq :: "pyfloat \<Rightarrow> pyfloat \<Rightarrow> bool" where
  "float_eq NaN y = False"
| "float_eq x NaN = False"
| "float_eq x y = (x = y)"

fun float_lt :: "pyfloat \<Rightarrow> pyfloat \<Rightarrow> bool" where
  "float_lt NaN y = False"
| "float_lt x NaN = False"
| "float_lt (Finite a) (Finite b) = (a < b)"
| "float_lt x NegInf = False"
| "float_lt PosInf y = False"
| "float_lt NegInf y = True"
| "float_lt x PosInf = True"

definition float_le :: "pyfloat \<Rightarrow> pyfloat \<Rightarrow> bool" where
  "float_le x y = (float_lt x y \<or> float_eq x y)"

fun isfinite :: "pyfloat \<Rightarrow> bool" where
  "isfinite (Finite a) = True"
| "isfinite x = False"

text \<open>
  What \<open>json.loads\<close> returns: \<open>None\<close>, a bool, an int, a float (the tokens
  \<open>NaN\<close>, \<open>Infinity\<close> and \<open>-Infinity\<close> are read as the floats they name), a
  str, a list or a dict. The members of an object are kept in the order of the text; where
  a key occurs twice the dict holds the last value, which is what \<open>dict_get\<close> returns.
\<close>

datatype json =
    JNull
  | JBool bool
  | JInt int
  | JFloat pyfloat
  | JStr string
  | JArr "json list"
  | JObj "(string \<times> json) list"

definition dict_get :: "(string \<times> json) list \<Rightarrow> string \<Rightarrow> json option" where
  "dict_get d k = map_of (rev d) k"

section \<open>Validation as the models use it\<close>

text \<open>
  The models of \<open>demands_analysis.py\<close> are declarations: each class lists its fields
  with a type and either \<open>...\<close> (required) or a default. What a declaration means is
  fixed by pydantic's \<open>BaseModel\<close>, through \<open>CamelModel\<close>:
  \<^item> a field is read under its camel-case alias and, when the alias is absent, under its
    own name; keys that no field declares are ignored;
  \<^item> a required field that is absent is an error \<open>value_error.missing\<close>; an absent field
    with a default takes the default;
  \<^item> \<open>None\<close> is an error except for an \<open>Optional\<close> field, where it is the value;
  \<^item> every field is validated, and the errors of all fields are collected, each with its
    location: the alias of the field, then the index in a list, then the location inside
    the nested model;
  \<^item> the models declare no validator of their own and no constraint on a number.

  pydantic also converts between scalar types (a numeric string for a number, a number for
  a string) and lets \<open>dict()\<close> convert a value that is not a dict. These conversions are
  not followed: a value of another JSON type is reported as a type error here, and no
  statement below is about such a value.
\<close>

datatype loc_item = Key string | Idx nat

datatype error_type =
    value_error_missing
  | value_error_jsondecode
  | type_error_none_not_allowed
  | type_error_integer
  | type_error_float
  | type_error_str
  | type_error_enum
  | type_error_list
  | type_error_dict

type_synonym error = "loc_item list \<times> error_type"

type_synonym 'a result = "error list + 'a"

fun errs :: "'a result \<Rightarrow> error list" where
  "errs (Inl es) = es"
| "errs (Inr v) = []"

definition at_loc :: "loc_item list \<Rightarrow> error \<Rightarrow> error" where
  "at_loc p e = (p @ fst e, snd e)"

fun under_loc :: "loc_item list \<Rightarrow> 'a result \<Rightarrow> 'a result" where
  "under_loc p (Inl es) = Inl (map (at_loc p) es)"
| "under_loc p (Inr v) = Inr v"

text \<open>\<open>ap\<close> applies a constructor to one more validated field and keeps every error.\<close>

fun ap :: "('a \<Rightarrow> 'b) result \<Rightarrow> 'a result \<Rightarrow> 'b result" where
  "ap (Inr f) (Inr x) = Inr (f x)"
| "ap (Inr f) (Inl es) = Inl es"
| "ap (Inl es) (Inr x) = Inl es"
| "ap (Inl es) (Inl es') = Inl (es @ es')"

definition field_value :: "(string \<times> json) list \<Rightarrow> string \<Rightarrow> string \<Rightarrow> json option" where
  "field_value d alias name =
     (case dict_get d alias of Some v \<Rightarrow> Some v | None \<Rightarrow> dict_get d name)"

definition not_none :: "(json \<Rightarrow> 'a result) \<Rightarrow> json \<Rightarrow> 'a result" where
  "not_none validator v =
     (case v of JNull \<Rightarrow> Inl [([], type_error_none_not_allowed)] | _ \<Rightarrow> validator v)"

definition required :: "(string \<times> json) list \<Rightarrow> string \<Rightarrow> string \<Rightarrow> (json \<Rightarrow> 'a result) \<Rightarrow> 'a result" where
  "required d alias name validator =
     (case field_value d alias name of
        None \<Rightarrow> Inl [([Key alias], value_error_missing)]
      | Some v \<Rightarrow> under_loc [Key alias] (not_none validator v))"

definition with_default :: "(string \<times> json) list \<Rightarrow> string \<Rightarrow> string \<Rightarrow> 'a \<Rightarrow> (json \<Rightarrow> 'a result) \<Rightarrow> 'a result" where
  "with_default d alias name dflt validator =
     (case field_value d alias name of
        None \<Rightarrow> Inr dflt
      | Some v \<Rightarrow> under_loc [Key alias] (not_none validator v))"

definition optional :: "(string \<times> json) list \<Rightarrow> string \<Rightarrow> string \<Rightarrow> (json \<Rightarrow> 'a result) \<Rightarrow> 'a option result" where
  "optional d alias name validator =
     (case field_value d alias name of
        None \<Rightarrow> Inr None
      | Some JNull \<Rightarrow> Inr None
      | Some v \<Rightarrow> under_loc [Key alias] (ap (Inr Some) (validator v)))"

fun int_validator :: "json \<Rightarrow> int result" where
  "int_validator (JInt i) = Inr i"
| "int_validator v = Inl [([], type_error_integer)]"

fun float_validator :: "json \<Rightarrow> pyfloat result" where
  "float_validator (JFloat x) = Inr x"
| "float_validator v = Inl [([], type_error_float)]"

fun str_validator :: "json \<Rightarrow> string result" where
  "str_validator (JStr s) = Inr s"
| "str_validator v = Inl [([], type_error_str)]"

fun list_items :: "(json \<Rightarrow> 'a result) \<Rightarrow> nat \<Rightarrow> json list \<Rightarrow> 'a list result" where
  "list_items validator i [] = Inr []"
| "list_items validator i (v # vs) =
     ap (ap (Inr Cons) (under_loc [Idx i] (not_none validator v))) (list_items validator (Suc i) vs)"

definition list_validator :: "(json \<Rightarrow> 'a result) \<Rightarrow> json \<Rightarrow> 'a list result" where
  "list_validator validator v =
     (case v of JArr vs \<Rightarrow> list_items validator 0 vs | _ \<Rightarrow> Inl [([], type_error_list)])"

text \<open>A field whose type is a model takes a dict and validates it as that model.\<close>

definition model_validator :: "((string \<times> json) list \<Rightarrow> 'a result) \<Rightarrow> json \<Rightarrow> 'a result" where
  "model_validator validate_model v =
     (case v of JObj d \<Rightarrow> validate_model d | _ \<Rightarrow> Inl [([], type_error_dict)])"

text \<open>
  \<open>parse_obj\<close> is the same at the top of a document, where the error of a value that is
  not a dict is reported under \<open>__root__\<close>. \<open>parse_raw\<close> decodes the text first;
  \<open>json.loads\<close> is a parameter, \<open>None\<close> where it raises.
\<close>

definition parse_obj :: "((string \<times> json) list \<Rightarrow> 'a result) \<Rightarrow> json \<Rightarrow> 'a result" where
  "parse_obj validate_model obj =
     (case obj of JObj d \<Rightarrow> validate_model d | _ \<Rightarrow> Inl [([Key ''__root__''], type_error_dict)])"

definition parse_raw :: "((string \<times> json) list \<Rightarrow> 'a result) \<Rightarrow> (string \<Rightarrow> json option) \<Rightarrow> string \<Rightarrow> 'a result" where
  "parse_raw validate_model json_loads b =
     (case json_loads b of
        None \<Rightarrow> Inl [([Key ''__root__''], value_error_jsondecode)]
      | Some obj \<Rightarrow> parse_obj validate_model obj)"

section \<open>The domain model\<close>

datatype ResourceTypeType = generic | continuous | discrete

fun ResourceTypeType_value :: "ResourceTypeType \<Rightarrow> string" where
  "ResourceTypeType_value generic = ''Generic''"
| "ResourceTypeType_value continuous = ''Continuous''"
| "ResourceTypeType_value discrete = ''Discrete''"

datatype Environment = pressurized | unpressurized

fun Environment_value :: "Environment \<Rightarrow> string" where
  "Environment_value pressurized = ''Pressurized''"
| "Environment_value unpressurized = ''Unpressurized''"

text \<open>An enum field takes exactly the values of its members.\<close>

definition ResourceTypeType_validator :: "json \<Rightarrow> ResourceTypeType result" where
  "ResourceTypeType_validator v =
     (if v = JStr ''Generic'' then Inr generic
      else if v = JStr ''Continuous'' then Inr continuous
      else if v = JStr ''Discrete'' then Inr discrete
      else Inl [([], type_error_enum)])"

definition Environment_validator :: "json \<Rightarrow> Environment result" where
  "Environment_validator v =
     (if v = JStr ''Pressurized'' then Inr pressurized
      else if v = JStr ''Unpressurized'' then Inr unpressurized
      else Inl [([], type_error_enum)])"

record ResourceType =
  type :: ResourceTypeType
  name :: string
  class_of_supply :: int
  environment :: Environment
  units :: string
  unit_mass :: pyfloat
  unit_volume :: pyfloat
  packing_factor :: pyfloat

definition ResourceType_validate :: "(string \<times> json) list \<Rightarrow> ResourceType result" where
  "ResourceType_validate d =
     ap (ap (ap (ap (ap (ap (ap (ap
       (Inr (\<lambda>v1 v2 v3 v4 v5 v6 v7 v8.
          \<lparr>type = v1, name = v2, class_of_supply = v3, environment = v4, units = v5,
           unit_mass = v6, unit_volume = v7, packing_factor = v8\<rparr>))
       (required d ''type'' ''type'' ResourceTypeType_validator))
       (required d ''name'' ''name'' str_validator))
       (required d ''classOfSupply'' ''class_of_supply'' int_validator))
       (required d ''environment'' ''environment'' Environment_validator))
       (required d ''units'' ''units'' str_validator))
       (required d ''unitMass'' ''unit_mass'' float_validator))
       (required d ''unitVolume'' ''unit_volume'' float_validator))
       (required d ''packingFactor'' ''packing_factor'' float_validator)"

record Location =
  id :: int
  name :: string

definition Location_validate :: "(string \<times> json) list \<Rightarrow> Location result" where
  "Location_validate d =
     ap (ap
       (Inr (\<lambda>v1 v2. \<lparr>Location.id = v1, name = v2\<rparr>))
       (required d ''id'' ''id'' int_validator))
       (required d ''name'' ''name'' str_validator)"

record Element =
  id :: int
  name :: string

definition Element_validate :: "(string \<times> json) list \<Rightarrow> Element result" where
  "Element_validate d =
     ap (ap
       (Inr (\<lambda>v1 v2. \<lparr>Element.id = v1, name = v2\<rparr>))
       (required d ''id'' ''id'' int_validator))
       (required d ''name'' ''name'' str_validator)"

record Resource =
  resource :: ResourceType
  amount :: pyfloat
  mass :: pyfloat
  volume :: pyfloat

definition Resource_validate :: "(string \<times> json) list \<Rightarrow> Resource result" where
  "Resource_validate d =
     ap (ap (ap (ap
       (Inr (\<lambda>v1 v2 v3 v4. \<lparr>resource = v1, amount = v2, mass = v3, volume = v4\<rparr>))
       (required d ''resource'' ''resource'' (model_validator ResourceType_validate)))
       (required d ''amount'' ''amount'' float_validator))
       (required d ''mass'' ''mass'' float_validator))
       (required d ''volume'' ''volume'' float_validator)"

record RawDemand =
  time :: pyfloat
  location :: Location
  element :: "Element option"
  consumption :: "Resource list"
  production :: "Resource list"
  total_mass :: pyfloat
  total_volume :: pyfloat

definition RawDemand_validate :: "(string \<times> json) list \<Rightarrow> RawDemand result" where
  "RawDemand_validate d =
     ap (ap (ap (ap (ap (ap (ap
       (Inr (\<lambda>v1 v2 v3 v4 v5 v6 v7.
          \<lparr>RawDemand.time = v1, location = v2, element = v3, consumption = v4,
           production = v5, total_mass = v6, total_volume = v7\<rparr>))
       (required d ''time'' ''time'' float_validator))
       (required d ''location'' ''location'' (model_validator Location_validate)))
       (optional d ''element'' ''element'' (model_validator Element_validate)))
       (with_default d ''consumption'' ''consumption'' []
          (list_validator (model_validator Resource_validate))))
       (with_default d ''production'' ''production'' []
          (list_validator (model_validator Resource_validate))))
       (required d ''totalMass'' ''total_mass'' float_validator))
       (required d ''totalVolume'' ''total_volume'' float_validator)"

record RawDemandsAnalysis =
  demands :: "RawDemand list"

definition RawDemandsAnalysis_validate :: "(string \<times> json) list \<Rightarrow> RawDemandsAnalysis result" where
  "RawDemandsAnalysis_validate d =
     ap (Inr (\<lambda>v1. \<lparr>demands = v1\<rparr>))
       (with_default d ''demands'' ''demands'' []
          (list_validator (model_validator RawDemand_validate)))"

record NodeDemand =
  time :: pyfloat
  location :: Location
  consumption :: "Resource list"
  production :: "Resource list"
  total_mass :: pyfloat
  total_volume :: pyfloat

definition NodeDemand_validate :: "(string \<times> json) list \<Rightarrow> NodeDemand result" where
  "NodeDemand_validate d =
     ap (ap (ap (ap (ap (ap
       (Inr (\<lambda>v1 v2 v3 v4 v5 v6.
          \<lparr>NodeDemand.time = v1, location = v2, consumption = v3, production = v4,
           total_mass = v5, total_volume = v6\<rparr>))
       (required d ''time'' ''time'' float_validator))
       (required d ''location'' ''location'' (model_validator Location_validate)))
       (with_default d ''consumption'' ''consumption'' []
          (list_validator (model_validator Resource_validate))))
       (with_default d ''production'' ''production'' []
          (list_validator (model_validator Resource_validate))))
       (required d ''totalMass'' ''total_mass'' float_validator))
       (required d ''totalVolume'' ''total_volume'' float_validator)"

record EdgeDemand =
  start_time :: pyfloat
  end_time :: pyfloat
  origin :: Location
  destination :: Location
  location :: Location
  consumption :: "Resource list"
  production :: "Resource list"
  total_mass :: pyfloat
  total_volume :: pyfloat
  max_cargo_mass :: pyfloat
  net_cargo_mass :: pyfloat
  max_cargo_volume :: pyfloat
  net_cargo_volume :: pyfloat

definition EdgeDemand_validate :: "(string \<times> json) list \<Rightarrow> EdgeDemand result" where
  "EdgeDemand_validate d =
     ap (ap (ap (ap (ap (ap (ap (ap (ap (ap (ap (ap (ap
       (Inr (\<lambda>v1 v2 v3 v4 v5 v6 v7 v8 v9 v10 v11 v12 v13.
          \<lparr>start_time = v1, end_time = v2, origin = v3, destination = v4, location = v5,
           consumption = v6, production = v7, total_mass = v8, total_volume = v9,
           max_cargo_mass = v10, net_cargo_mass = v11, max_cargo_volume = v12,
           net_cargo_volume = v13\<rparr>))
       (required d ''startTime'' ''start_time'' float_validator))
       (required d ''endTime'' ''end_time'' float_validator))
       (required d ''origin'' ''origin'' (model_validator Location_validate)))
       (required d ''destination'' ''destination'' (model_validator Location_validate)))
       (required d ''location'' ''location'' (model_validator Location_validate)))
       (with_default d ''consumption'' ''consumption'' []
          (list_validator (model_validator Resource_validate))))
       (with_default d ''production'' ''production'' []
          (list_validator (model_validator Resource_validate))))
       (required d ''totalMass'' ''total_mass'' float_validator))
       (required d ''totalVolume'' ''total_volume'' float_validator))
       (required d ''maxCargoMass'' ''max_cargo_mass'' float_validator))
       (required d ''netCargoMass'' ''net_cargo_mass'' float_validator))
       (required d ''maxCargoVolume'' ''max_cargo_volume'' float_validator))
       (required d ''netCargoVolume'' ''net_cargo_volume'' float_validator)"

record AggregatedDemandsAnalysis =
  nodes :: "NodeDemand list"
  edges :: "EdgeDemand list"

definition AggregatedDemandsAnalysis_validate :: "(string \<times> json) list \<Rightarrow> AggregatedDemandsAnalysis result" where
  "AggregatedDemandsAnalysis_validate d =
     ap (ap
       (Inr (\<lambda>v1 v2. \<lparr>nodes = v1, edges = v2\<rparr>))
       (with_default d ''nodes'' ''nodes'' []
          (list_validator (model_validator NodeDemand_validate))))
       (with_default d ''edges'' ''edges'' []
          (list_validator (model_validator EdgeDemand_validate)))"

section \<open>The canonical JSON of a model\<close>

text \<open>
  \<open>Model.json(by_alias=True)\<close>, as the response of an endpoint is written: an object
  with the camel-case alias of every field in the order of the declaration, an enum as its
  value, \<open>None\<close> as \<open>null\<close>, a list as an array.
\<close>

definition ResourceType_json :: "ResourceType \<Rightarrow> json" where
  "ResourceType_json t = JObj
     [(''type'', JStr (ResourceTypeType_value (type t))),
      (''name'', JStr (ResourceType.name t)),
      (''classOfSupply'', JInt (class_of_supply t)),
      (''environment'', JStr (Environment_value (environment t))),
      (''units'', JStr (units t)),
      (''unitMass'', JFloat (unit_mass t)),
      (''unitVolume'', JFloat (unit_volume t)),
      (''packingFactor'', JFloat (packing_factor t))]"

definition Location_json :: "Location \<Rightarrow> json" where
  "Location_json l = JObj [(''id'', JInt (Location.id l)), (''name'', JStr (Location.name l))]"

definition Element_json :: "Element \<Rightarrow> json" where
  "Element_json e = JObj [(''id'', JInt (Element.id e)), (''name'', JStr (Element.name e))]"

definition Resource_json :: "Resource \<Rightarrow> json" where
  "Resource_json r = JObj
     [(''resource'', ResourceType_json (resource r)),
      (''amount'', JFloat (amount r)),
      (''mass'', JFloat (mass r)),
      (''volume'', JFloat (volume r))]"

definition RawDemand_json :: "RawDemand \<Rightarrow> json" where
  "RawDemand_json x = JObj
     [(''time'', JFloat (RawDemand.time x)),
      (''location'', Location_json (RawDemand.location x)),
      (''element'', (case element x of None \<Rightarrow> JNull | Some e \<Rightarrow> Element_json e)),
      (''consumption'', JArr (map Resource_json (RawDemand.consumption x))),
      (''production'', JArr (map Resource_json (RawDemand.production x))),
      (''totalMass'', JFloat (RawDemand.total_mass x)),
      (''totalVolume'', JFloat (RawDemand.total_volume x))]"

definition RawDemandsAnalysis_json :: "RawDemandsAnalysis \<Rightarrow> json" where
  "RawDemandsAnalysis_json a = JObj [(''demands'', JArr (map RawDemand_json (demands a)))]"

definition NodeDemand_json :: "NodeDemand \<Rightarrow> json" where
  "NodeDemand_json x = JObj
     [(''time'', JFloat (NodeDemand.time x)),
      (''location'', Location_json (NodeDemand.location x)),
      (''consumption'', JArr (map Resource_json (NodeDemand.consumption x))),
      (''production'', JArr (map Resource_json (NodeDemand.production x))),
      (''totalMass'', JFloat (NodeDemand.total_mass x)),
      (''totalVolume'', JFloat (NodeDemand.total_volume x))]"

definition EdgeDemand_json :: "EdgeDemand \<Rightarrow> json" where
  "EdgeDemand_json x = JObj
     [(''startTime'', JFloat (start_time x)),
      (''endTime'', JFloat (end_time x)),
      (''origin'', Location_json (origin x)),
      (''destination'', Location_json (destination x)),
      (''location'', Location_json (EdgeDemand.location x)),
      (''consumption'', JArr (map Resource_json (EdgeDemand.consumption x))),
      (''production'', JArr (map Resource_json (EdgeDemand.production x))),
      (''totalMass'', JFloat (EdgeDemand.total_mass x)),
      (''totalVolume'', JFloat (EdgeDemand.total_volume x)),
      (''maxCargoMass'', JFloat (max_cargo_mass x)),
      (''netCargoMass'', JFloat (net_cargo_mass x)),
      (''maxCargoVolume'', JFloat (max_cargo_volume x)),
      (''netCargoVolume'', JFloat (net_cargo_volume x))]"

definition AggregatedDemandsAnalysis_json :: "AggregatedDemandsAnalysis \<Rightarrow> json" where
  "AggregatedDemandsAnalysis_json a = JObj
     [(''nodes'', JArr (map NodeDemand_json (nodes a))),
      (''edges'', JArr (map EdgeDemand_json (edges a)))]"

section \<open>The numbers of a model\<close>

text \<open>Every float field of a model and of the models inside it, in the order of the fields.\<close>

definition ResourceType_floats :: "ResourceType \<Rightarrow> pyfloat list" where
  "ResourceType_floats t = [unit_mass t, unit_volume t, packing_factor t]"

definition Resource_floats :: "Resource \<Rightarrow> pyfloat list" where
  "Resource_floats r = ResourceType_floats (resource r) @ [amount r, mass r, volume r]"

definition RawDemand_floats :: "RawDemand \<Rightarrow> pyfloat list" where
  "RawDemand_floats x =
     RawDemand.time x # concat (map Resource_floats (RawDemand.consumption x))
       @ concat (map Resource_floats (RawDemand.production x))
       @ [RawDemand.total_mass x, RawDemand.total_volume x]"

definition RawDemandsAnalysis_floats :: "RawDemandsAnalysis \<Rightarrow> pyfloat list" where
  "RawDemandsAnalysis_floats a = concat (map RawDemand_floats (demands a))"

definition NodeDemand_floats :: "NodeDemand \<Rightarrow> pyfloat list" where
  "NodeDemand_floats x =
     NodeDemand.time x # concat (map Resource_floats (NodeDemand.consumption x))
       @ concat (map Resource_floats (NodeDemand.production x))
       @ [NodeDemand.total_mass x, NodeDemand.total_volume x]"

definition EdgeDemand_floats :: "EdgeDemand \<Rightarrow> pyfloat list" where
  "EdgeDemand_floats x =
     start_time x # end_time x # concat (map Resource_floats (EdgeDemand.consumption x))
       @ concat (map Resource_floats (EdgeDemand.production x))
       @ [EdgeDemand.total_mass x, EdgeDemand.total_volume x, max_cargo_mass x,
          net_cargo_mass x, max_cargo_volume x, net_cargo_volume x]"

definition AggregatedDemandsAnalysis_floats :: "AggregatedDemandsAnalysis \<Rightarrow> pyfloat list" where
  "AggregatedDemandsAnalysis_floats a =
     concat (map NodeDemand_floats (nodes a)) @ concat (map EdgeDemand_floats (edges a))"

section \<open>Equality of models\<close>

text \<open>
  Two models are equal (\<open>==\<close>) when their fields are: numbers by the comparison of
  floats, lists element by element, everything else by value. The definitions compare two
  objects that share no float object, as an object constructed from its fields and the one
  parsed from its JSON do (\<open>==\<close> holds of one and the same NaN object, and of no two).
\<close>

definition ResourceType_eq :: "ResourceType \<Rightarrow> ResourceType \<Rightarrow> bool" where
  "ResourceType_eq a b =
     (type a = type b \<and> ResourceType.name a = ResourceType.name b
      \<and> class_of_supply a = class_of_supply b \<and> environment a = environment b
      \<and> units a = units b \<and> float_eq (unit_mass a) (unit_mass b)
      \<and> float_eq (unit_volume a) (unit_volume b)
      \<and> float_eq (packing_factor a) (packing_factor b))"

definition Resource_eq :: "Resource \<Rightarrow> Resource \<Rightarrow> bool" where
  "Resource_eq a b =
     (ResourceType_eq (resource a) (resource b) \<and> float_eq (amount a) (amount b)
      \<and> float_eq (mass a) (mass b) \<and> float_eq (volume a) (volume b))"

definition RawDemand_eq :: "RawDemand \<Rightarrow> RawDemand \<Rightarrow> bool" where
  "RawDemand_eq a b =
     (float_eq (RawDemand.time a) (RawDemand.time b)
      \<and> RawDemand.location a = RawDemand.location b
      \<and> element a = element b
      \<and> list_all2 Resource_eq (RawDemand.consumption a) (RawDemand.consumption b)
      \<and> list_all2 Resource_eq (RawDemand.production a) (RawDemand.production b)
      \<and> float_eq (RawDemand.total_mass a) (RawDemand.total_mass b)
      \<and> float_eq (RawDemand.total_volume a) (RawDemand.total_volume b))"

definition RawDemandsAnalysis_eq :: "RawDemandsAnalysis \<Rightarrow> RawDemandsAnalysis \<Rightarrow> bool" where
  "RawDemandsAnalysis_eq a b = list_all2 RawDemand_eq (demands a) (demands b)"

section \<open>The service\<close>

datatype exn =
    HTTPException nat string
  | ValidationError "error list"
  | RuntimeError string
  | TypeError
  | FileNotFoundError string
  | OSError string

subsection \<open>Configuration\<close>

text \<open>
  The module reads its configuration when it is loaded. \<open>os.getenv("SPACENET_PATH")\<close>
  is \<open>None\<close> when the variable is not set, and \<open>os.path.exists(None)\<close> raises
  a TypeError. \<open>os.getenv("SPACENET_TIMEOUT", 10)\<close> is the string of the environment
  when the variable is set and the integer 10 when it is not; \<open>str_timeout\<close> is how
  the f-string of the detail prints it.
\<close>

datatype timeout = TInt int | TStr string

record config =
  spacenet_path :: string
  spacenet_timeout :: timeout

definition startup :: "(string \<Rightarrow> string option) \<Rightarrow> (string \<Rightarrow> bool) \<Rightarrow> exn + config" where
  "startup getenv path_exists =
     (case getenv ''SPACENET_PATH'' of
        None \<Rightarrow> Inl TypeError
      | Some p \<Rightarrow>
          if \<not> path_exists p then Inl (RuntimeError (''SpaceNet JAR not found at: '' @ p))
          else Inr \<lparr>spacenet_path = p,
                 spacenet_timeout =
                   (case getenv ''SPACENET_TIMEOUT'' of None \<Rightarrow> TInt 10 | Some s \<Rightarrow> TStr s)\<rparr>)"

fun str_nat :: "nat \<Rightarrow> string" where
  "str_nat n = (if n < 10 then [''0123456789'' ! n] else str_nat (n div 10) @ [''0123456789'' ! (n mod 10)])"

declare str_nat.simps [simp del]

definition str_int :: "int \<Rightarrow> string" where
  "str_int i = (if i < 0 then ''-'' @ str_nat (nat (- i)) else str_nat (nat i))"

fun str_timeout :: "timeout \<Rightarrow> string" where
  "str_timeout (TInt i) = str_int i"
| "str_timeout (TStr s) = s"

subsection \<open>The operating system\<close>

text \<open>
  What the endpoints call outside the program is a parameter: the temporary directory
  (\<open>mkdtemp\<close>, and \<open>rmtree\<close> when the \<open>with\<close> block is left), the files, the child
  process and the JSON decoder. \<open>'w\<close> is the state of the world they act on.
\<close>

datatype outcome = Exited int string | Expired

record 'w os =
  mkdtemp :: "'w \<Rightarrow> string \<times> 'w"
  rmtree :: "string \<Rightarrow> 'w \<Rightarrow> 'w"
  write_file :: "string \<Rightarrow> string \<Rightarrow> 'w \<Rightarrow> exn + 'w"
  read_file :: "string \<Rightarrow> 'w \<Rightarrow> exn + string"
  popen :: "string list \<Rightarrow> 'w \<Rightarrow> exn + 'w"
  communicate :: "int \<Rightarrow> 'w \<Rightarrow> outcome \<times> 'w"
  kill :: "'w \<Rightarrow> 'w"
  json_loads :: "string \<Rightarrow> json option"

text \<open>\<open>os.path.join\<close> of two paths (posixpath).\<close>

definition os_path_join :: "string \<Rightarrow> string \<Rightarrow> string" where
  "os_path_join a b =
     (if take 1 b = ''/'' then b
      else if a = [] \<or> last a = CHR ''/'' then a @ b
      else a @ ''/'' @ b)"

text \<open>
  \<open>subprocess.check_output\<close> with \<open>timeout\<close>: the child is started, then waited for
  until \<open>_time() + timeout\<close>. That sum raises a TypeError when the timeout is a string.
  A child that runs out of time, or whose wait raised, is killed. A return code other than
  zero raises CalledProcessError with the output of the child.
\<close>

datatype completed =
    Returned string
  | CalledProcessError int string
  | TimeoutExpired
  | Raised exn

definition check_output :: "'w os \<Rightarrow> string list \<Rightarrow> timeout \<Rightarrow> 'w \<Rightarrow> completed \<times> 'w" where
  "check_output os args tmo w =
     (case popen os args w of
        Inl e \<Rightarrow> (Raised e, w)
      | Inr w1 \<Rightarrow>
          (case tmo of
             TStr s \<Rightarrow> (Raised TypeError, kill os w1)
           | TInt t \<Rightarrow>
               (case communicate os t w1 of
                  (Expired, w2) \<Rightarrow> (TimeoutExpired, kill os w2)
                | (Exited returncode output, w2) \<Rightarrow>
                    if returncode \<noteq> 0 then (CalledProcessError returncode output, w2)
                    else (Returned output, w2))))"

text \<open>\<open>with TemporaryDirectory() as tempdir\<close>: the directory is removed however the body ends.\<close>

definition TemporaryDirectory :: "'w os \<Rightarrow> (string \<Rightarrow> 'w \<Rightarrow> (exn + 'a) \<times> 'w) \<Rightarrow> 'w \<Rightarrow> (exn + 'a) \<times> 'w" where
  "TemporaryDirectory os body w =
     (case mkdtemp os w of (tempdir, w1) \<Rightarrow>
        (case body tempdir w1 of (r, w2) \<Rightarrow> (r, rmtree os tempdir w2)))"

subsection \<open>The endpoints\<close>

definition raw_demands_args :: "string \<Rightarrow> string \<Rightarrow> string \<Rightarrow> bool \<Rightarrow> string list" where
  "raw_demands_args jar scenario_path results_path consume_resources =
     [''java'', ''-jar'', jar, ''-h'', ''demands-raw'', ''-i'', scenario_path, ''-o'', results_path,
      if consume_resources then ''-c'' else '''']"

definition analyze_raw_demands :: "'w os \<Rightarrow> config \<Rightarrow> string \<Rightarrow> string \<Rightarrow> bool \<Rightarrow> 'w \<Rightarrow> (exn + RawDemandsAnalysis) \<times> 'w" where
  "analyze_raw_demands os cfg filename content consume_resources w =
     (case TemporaryDirectory os (\<lambda>tempdir w1.
         let scenario_path = os_path_join tempdir filename;
             results_path = os_path_join tempdir ''results.json''
         in case write_file os scenario_path content w1 of
              Inl e \<Rightarrow> (Inl e, w1)
            | Inr w2 \<Rightarrow>
                (case check_output os
                        (raw_demands_args (spacenet_path cfg) scenario_path results_path
                           consume_resources)
                        (spacenet_timeout cfg) w2 of
                   (CalledProcessError returncode output, w3) \<Rightarrow>
                     (Inl (HTTPException 422 output), w3)
                 | (TimeoutExpired, w3) \<Rightarrow>
                     (Inl (HTTPException 422
                        (''Timeout exceeded ('' @ str_timeout (spacenet_timeout cfg) @ '' s)'')), w3)
                 | (Raised e, w3) \<Rightarrow> (Inl e, w3)
                 | (Returned output, w3) \<Rightarrow>
                     (case read_file os results_path w3 of
                        Inl e \<Rightarrow> (Inl e, w3)
                      | Inr results \<Rightarrow> (Inr results, w3)))) w of
        (Inl e, w') \<Rightarrow> (Inl e, w')
      | (Inr results, w') \<Rightarrow>
          (case parse_raw RawDemandsAnalysis_validate (json_loads os) results of
             Inl es \<Rightarrow> (Inl (ValidationError es), w')
           | Inr analysis \<Rightarrow> (Inr analysis, w')))"

definition aggregated_demands_args :: "string \<Rightarrow> string \<Rightarrow> string \<Rightarrow> bool \<Rightarrow> string list" where
  "aggregated_demands_args jar scenario_path results_path consume_resources =
     [''java'', ''-jar'', jar, ''-h'', ''demands-agg'', ''-i'', scenario_path, ''-o'', results_path,
      if consume_resources then ''-c'' else '''']"

definition analyze_aggregated_demands :: "'w os \<Rightarrow> config \<Rightarrow> string \<Rightarrow> string \<Rightarrow> bool \<Rightarrow> 'w \<Rightarrow> (exn + AggregatedDemandsAnalysis) \<times> 'w" where
  "analyze_aggregated_demands os cfg filename content consume_resources w =
     (case TemporaryDirectory os (\<lambda>tempdir w1.
         let scenario_path = os_path_join tempdir filename;
             results_path = os_path_join tempdir ''results.json''
         in case write_file os scenario_path content w1 of
              Inl e \<Rightarrow> (Inl e, w1)
            | Inr w2 \<Rightarrow>
                (case check_output os
                        (aggregated_demands_args (spacenet_path cfg) scenario_path results_path
                           consume_resources)
                        (spacenet_timeout cfg) w2 of
                   (CalledProcessError returncode output, w3) \<Rightarrow>
                     (Inl (HTTPException 422 output), w3)
                 | (TimeoutExpired, w3) \<Rightarrow>
                     (Inl (HTTPException 422
                        (''Timeout exceeded ('' @ str_timeout (spacenet_timeout cfg) @ '' s)'')), w3)
                 | (Raised e, w3) \<Rightarrow> (Inl e, w3)
                 | (Returned output, w3) \<Rightarrow>
                     (case read_file os results_path w3 of
                        Inl e \<Rightarrow> (Inl e, w3)
                      | Inr results \<Rightarrow> (Inr results, w3)))) w of
        (Inl e, w') \<Rightarrow> (Inl e, w')
      | (Inr results, w') \<Rightarrow>
          (case parse_raw AggregatedDemandsAnalysis_validate (json_loads os) results of
             Inl es \<Rightarrow> (Inl (ValidationError es), w')
           | Inr analysis \<Rightarrow> (Inr analysis, w')))"

subsection \<open>One operation with a mode\<close>

text \<open>
  The two operations as one: staging, invocation, classification of the outcome and
  reading of the result, with the mode string given to the engine and the model that
  parses the result as parameters.
\<close>

definition engine_args :: "string \<Rightarrow> string \<Rightarrow> string \<Rightarrow> string \<Rightarrow> bool \<Rightarrow> string list" where
  "engine_args mode jar scenario_path results_path consume_resources =
     [''java'', ''-jar'', jar, ''-h'', mode, ''-i'', scenario_path, ''-o'', results_path]
       @ [if consume_resources then ''-c'' else '''']"

definition staging :: "'w os \<Rightarrow> string \<Rightarrow> string \<Rightarrow> string \<Rightarrow> 'w \<Rightarrow> exn + 'w" where
  "staging os tempdir filename content w =
     write_file os (os_path_join tempdir filename) content w"

definition invocation :: "'w os \<Rightarrow> config \<Rightarrow> string \<Rightarrow> string \<Rightarrow> string \<Rightarrow> bool \<Rightarrow> 'w \<Rightarrow> completed \<times> 'w" where
  "invocation os cfg mode tempdir filename consume_resources w =
     check_output os
       (engine_args mode (spacenet_path cfg) (os_path_join tempdir filename)
          (os_path_join tempdir ''results.json'') consume_resources)
       (spacenet_timeout cfg) w"

fun classification :: "config \<Rightarrow> completed \<Rightarrow> exn option" where
  "classification cfg (Returned output) = None"
| "classification cfg (CalledProcessError returncode output) = Some (HTTPException 422 output)"
| "classification cfg TimeoutExpired =
     Some (HTTPException 422 (''Timeout exceeded ('' @ str_timeout (spacenet_timeout cfg) @ '' s)''))"
| "classification cfg (Raised e) = Some e"

definition result_reading :: "'w os \<Rightarrow> string \<Rightarrow> 'w \<Rightarrow> exn + string" where
  "result_reading os tempdir w = read_file os (os_path_join tempdir ''results.json'') w"

definition analysis :: "string \<Rightarrow> ((string \<times> json) list \<Rightarrow> 'a result) \<Rightarrow> 'w os \<Rightarrow> config \<Rightarrow> string \<Rightarrow> string \<Rightarrow> bool \<Rightarrow> 'w \<Rightarrow> (exn + 'a) \<times> 'w" where
  "analysis mode model os cfg filename content consume_resources w =
     (case mkdtemp os w of (tempdir, w1) \<Rightarrow>
        (case staging os tempdir filename content w1 of
           Inl e \<Rightarrow> (Inl e, rmtree os tempdir w1)
         | Inr w2 \<Rightarrow>
             (case invocation os cfg mode tempdir filename consume_resources w2 of (c, w3) \<Rightarrow>
                (case classification cfg c of
                   Some e \<Rightarrow> (Inl e, rmtree os tempdir w3)
                 | None \<Rightarrow>
                     (case result_reading os tempdir w3 of
                        Inl e \<Rightarrow> (Inl e, rmtree os tempdir w3)
                      | Inr results \<Rightarrow>
                          (case parse_raw model (json_loads os) results of
                             Inl es \<Rightarrow> (Inl (ValidationError es), rmtree os tempdir w3)
                           | Inr a \<Rightarrow> (Inr a, rmtree os tempdir w3)))))))"

subsection \<open>A simulated system\<close>

text \<open>
  A system for the concrete cases: one temporary directory \<open>/tmp/tmp0\<close>, the
  directories that exist, files as a list of paths with their content, and an engine
  given by what it does with its arguments: how long it runs, its return code and output,
  and the files it writes (the results path is the ninth argument). The decoder knows the
  document \<open>{}\<close>.

  A path is resolved as the file system resolves it, component by component from the root:
  every directory on the way must exist, \<open>.\<close> and an empty component stay, \<open>..\<close>
  goes up. Opening a file in a directory that does not exist raises FileNotFoundError, and
  a file is kept under the path it resolves to, so that removing a directory removes
  the files that are in it and no other.
\<close>

record sim =
  sim_dirs :: "string list"
  sim_files :: "(string \<times> string) list"
  sim_child :: "string list option"
  sim_killed :: bool

record engine_run =
  run_seconds :: int
  run_returncode :: int
  run_output :: string
  run_writes :: "(string \<times> string) list"

fun split_on :: "char \<Rightarrow> string \<Rightarrow> string \<Rightarrow> string list" where
  "split_on sep acc [] = [acc]"
| "split_on sep acc (x # xs) =
     (if x = sep then acc # split_on sep [] xs else split_on sep (acc @ [x]) xs)"

definition path_of :: "string list \<Rightarrow> string" where
  "path_of cs = concat (map (\<lambda>c. ''/'' @ c) cs)"

fun resolve_dir :: "string list \<Rightarrow> string list \<Rightarrow> string list \<Rightarrow> string list option" where
  "resolve_dir dirs cur [] = Some cur"
| "resolve_dir dirs cur (c # cs) =
     (if c = [] \<or> c = ''.'' then resolve_dir dirs cur cs
      else if c = ''..'' then resolve_dir dirs (butlast cur) cs
      else if path_of (cur @ [c]) \<in> set dirs then resolve_dir dirs (cur @ [c]) cs
      else None)"

definition locate :: "string list \<Rightarrow> string \<Rightarrow> exn + string" where
  "locate dirs path =
     (case rev (split_on CHR ''/'' [] path) of
        [] \<Rightarrow> Inl (FileNotFoundError path)
      | final # parents \<Rightarrow>
          (case resolve_dir dirs [] (rev parents) of
             None \<Rightarrow> Inl (FileNotFoundError path)
           | Some cur \<Rightarrow>
               if final = [] \<or> final = ''.'' \<or> final = ''..''
                  \<or> path_of (cur @ [final]) \<in> set dirs
               then Inl (OSError path)
               else Inr (path_of (cur @ [final]))))"

definition sim_write :: "string \<Rightarrow> string \<Rightarrow> sim \<Rightarrow> exn + sim" where
  "sim_write path content w =
     (case locate (sim_dirs w) path of
        Inl e \<Rightarrow> Inl e
      | Inr p \<Rightarrow> Inr (w\<lparr>sim_files := (p, content) # filter (\<lambda>(q, c). q \<noteq> p) (sim_files w)\<rparr>))"

definition sim_os :: "(string list \<Rightarrow> engine_run) \<Rightarrow> sim os" where
  "sim_os engine =
     \<lparr>mkdtemp = (\<lambda>w. (''/tmp/tmp0'', w\<lparr>sim_dirs := ''/tmp/tmp0'' # sim_dirs w\<rparr>)),
      rmtree = (\<lambda>dir w. w\<lparr>sim_dirs := filter (\<lambda>d. d \<noteq> dir \<and> \<not> prefix (dir @ ''/'') d) (sim_dirs w),
                 sim_files := filter (\<lambda>(p, c). \<not> prefix (dir @ ''/'') p) (sim_files w)\<rparr>),
      write_file = sim_write,
      read_file = (\<lambda>path w. case locate (sim_dirs w) path of
                    Inl e \<Rightarrow> Inl e
                  | Inr p \<Rightarrow> (case map_of (sim_files w) p of
                      None \<Rightarrow> Inl (FileNotFoundError path) | Some c \<Rightarrow> Inr c)),
      popen = (\<lambda>args w. Inr (w\<lparr>sim_child := Some args\<rparr>)),
      communicate = (\<lambda>t w. case sim_child w of
                    None \<Rightarrow> (Exited 0 [], w)
                  | Some args \<Rightarrow>
                      if t < run_seconds (engine args) then (Expired, w)
                      else (Exited (run_returncode (engine args)) (run_output (engine args)),
                            (foldl (\<lambda>w' (p, c). case sim_write p c w' of
                                       Inl e \<Rightarrow> w' | Inr w'' \<Rightarrow> w'')
                               w (run_writes (engine args)))\<lparr>sim_child := None\<rparr>)),
      kill = (\<lambda>w. w\<lparr>sim_child := None, sim_killed := True\<rparr>),
      json_loads = (\<lambda>s. if s = ''{}'' then Some (JObj []) else None)\<rparr>"

definition sim_start :: sim where
  "sim_start = \<lparr>sim_dirs = [''/tmp''], sim_files = [], sim_child = None, sim_killed = False\<rparr>"

definition engine_writes_result :: "string list \<Rightarrow> engine_run" where
  "engine_writes_result args =
     \<lparr>run_seconds = 1, run_returncode = 0, run_output = [],
      run_writes = (case drop 8 args of [] \<Rightarrow> [] | results_path # _ \<Rightarrow> [(results_path, ''{}'')])\<rparr>"

definition engine_writes_nothing :: "string list \<Rightarrow> engine_run" where
  "engine_writes_nothing args =
     \<lparr>run_seconds = 1, run_returncode = 0, run_output = ''done'', run_writes = []\<rparr>"

definition engine_sleeps :: "string list \<Rightarrow> engine_run" where
  "engine_sleeps args =
     \<lparr>run_seconds = 3600, run_returncode = 0, run_output = [], run_writes = []\<rparr>"

section \<open>Facts about the validation\<close>

lemma errs_ap: "errs (ap f x) = errs f @ errs x"
  by (cases f; cases x) simp_all

lemma ResourceTypeType_roundtrip: "ResourceTypeType_validator (JStr (ResourceTypeType_value x)) = Inr x"
  by (cases x) (simp_all add: ResourceTypeType_validator_def)

lemma Environment_roundtrip: "Environment_validator (JStr (Environment_value x)) = Inr x"
  by (cases x) (simp_all add: Environment_validator_def)

lemmas field_defs = required_def with_default_def optional_def field_value_def dict_get_def
  not_none_def model_validator_def

lemma ResourceType_roundtrip: "model_validator ResourceType_validate (ResourceType_json t) = Inr t"
  by (simp add: ResourceType_json_def ResourceType_validate_def field_defs
      ResourceTypeType_roundtrip Environment_roundtrip)

lemma Location_roundtrip: "model_validator Location_validate (Location_json l) = Inr l"
  by (simp add: Location_json_def Location_validate_def field_defs)

lemma Element_roundtrip: "model_validator Element_validate (Element_json e) = Inr e"
  by (simp add: Element_json_def Element_validate_def field_defs)

lemma ResourceType_json_not_null: "ResourceType_json t \<noteq> JNull"
  by (simp add: ResourceType_json_def)

lemma Resource_roundtrip: "model_validator Resource_validate (Resource_json r) = Inr r"
  using ResourceType_roundtrip [of "resource r"]
  by (simp add: Resource_json_def Resource_validate_def required_def field_value_def
      dict_get_def not_none_def model_validator_def ResourceType_json_def)

lemma list_items_roundtrip:
  assumes "\<And>x. validator (encode x) = Inr x" and "\<And>x. encode x \<noteq> JNull"
  shows "list_items validator i (map encode xs) = Inr xs"
proof (induction xs arbitrary: i)
  case Nil
  show ?case by simp
next
  case (Cons x xs)
  have "not_none validator (encode x) = Inr x"
    using assms [of x] by (cases "encode x") (simp_all add: not_none_def)
  then show ?case by (simp add: Cons.IH)
qed

lemma list_roundtrip:
  assumes "\<And>x. validator (encode x) = Inr x" and "\<And>x. encode x \<noteq> JNull"
  shows "list_validator validator (JArr (map encode xs)) = Inr xs"
  by (simp add: list_validator_def list_items_roundtrip [OF assms])

lemma Resource_list_roundtrip:
  "list_validator (model_validator Resource_validate) (JArr (map Resource_json rs)) = Inr rs"
  by (rule list_roundtrip) (simp_all add: Resource_roundtrip, simp add: Resource_json_def)

lemma Location_as_field:
  "under_loc p (not_none (model_validator Location_validate) (Location_json l)) = Inr l"
  using Location_roundtrip [of l] by (simp add: not_none_def Location_json_def)

lemma Resource_list_as_field:
  "under_loc p (not_none (list_validator (model_validator Resource_validate))
     (JArr (map Resource_json rs))) = Inr rs"
  by (simp add: not_none_def Resource_list_roundtrip)

lemma Element_as_field:
  "(case (case e of None \<Rightarrow> JNull | Some x \<Rightarrow> Element_json x) of
      JNull \<Rightarrow> Inr None
    | v \<Rightarrow> under_loc p (ap (Inr Some) (model_validator Element_validate v))) = Inr e"
proof (cases e)
  case None
  then show ?thesis by simp
next
  case (Some x)
  then show ?thesis using Element_roundtrip [of x] by (simp add: Element_json_def)
qed

lemma RawDemand_roundtrip: "model_validator RawDemand_validate (RawDemand_json x) = Inr x"
  by (simp add: RawDemand_json_def RawDemand_validate_def required_def with_default_def
      optional_def field_value_def dict_get_def model_validator_def [of RawDemand_validate]
      Location_as_field Resource_list_as_field Element_as_field not_none_def [of float_validator])

lemma NodeDemand_roundtrip: "model_validator NodeDemand_validate (NodeDemand_json x) = Inr x"
  by (simp add: NodeDemand_json_def NodeDemand_validate_def required_def with_default_def
      field_value_def dict_get_def model_validator_def [of NodeDemand_validate]
      Location_as_field Resource_list_as_field not_none_def [of float_validator])

lemma EdgeDemand_roundtrip: "model_validator EdgeDemand_validate (EdgeDemand_json x) = Inr x"
  by (simp add: EdgeDemand_json_def EdgeDemand_validate_def required_def with_default_def
      field_value_def dict_get_def model_validator_def [of EdgeDemand_validate]
      Location_as_field Resource_list_as_field not_none_def [of float_validator])

lemma RawDemand_list_roundtrip:
  "list_validator (model_validator RawDemand_validate) (JArr (map RawDemand_json xs)) = Inr xs"
  by (rule list_roundtrip) (simp_all add: RawDemand_roundtrip, simp add: RawDemand_json_def)

lemma NodeDemand_list_roundtrip:
  "list_validator (model_validator NodeDemand_validate) (JArr (map NodeDemand_json xs)) = Inr xs"
  by (rule list_roundtrip) (simp_all add: NodeDemand_roundtrip, simp add: NodeDemand_json_def)

lemma EdgeDemand_list_roundtrip:
  "list_validator (model_validator EdgeDemand_validate) (JArr (map EdgeDemand_json xs)) = Inr xs"
  by (rule list_roundtrip) (simp_all add: EdgeDemand_roundtrip, simp add: EdgeDemand_json_def)

lemma RawDemandsAnalysis_roundtrip:
  "parse_obj RawDemandsAnalysis_validate (RawDemandsAnalysis_json a) = Inr a"
  by (simp add: RawDemandsAnalysis_json_def RawDemandsAnalysis_validate_def parse_obj_def
      with_default_def field_value_def dict_get_def not_none_def RawDemand_list_roundtrip)

lemma AggregatedDemandsAnalysis_roundtrip:
  "parse_obj AggregatedDemandsAnalysis_validate (AggregatedDemandsAnalysis_json a) = Inr a"
  by (simp add: AggregatedDemandsAnalysis_json_def AggregatedDemandsAnalysis_validate_def
      parse_obj_def with_default_def field_value_def dict_get_def not_none_def
      NodeDemand_list_roundtrip EdgeDemand_list_roundtrip)

section \<open>Construction of the entities\<close>

text \<open>
  C1 (as the code has it). The models declare a type for each field and nothing else, so
  constructing an entity checks no quantity: every ResourceType, Resource, RawDemand,
  NodeDemand and EdgeDemand value, whatever the sign of its masses, volumes and amounts,
  the order of its start and end time and the relation of its net to its max cargo, is
  constructed from its own fields without an error.
\<close>

theorem construction_checks_no_quantity:
  "model_validator ResourceType_validate (ResourceType_json t) = Inr t
   \<and> model_validator Resource_validate (Resource_json r) = Inr r
   \<and> model_validator RawDemand_validate (RawDemand_json x) = Inr x
   \<and> model_validator NodeDemand_validate (NodeDemand_json n) = Inr n
   \<and> model_validator EdgeDemand_validate (EdgeDemand_json e) = Inr e"
  by (simp only: ResourceType_roundtrip Resource_roundtrip RawDemand_roundtrip
      NodeDemand_roundtrip EdgeDemand_roundtrip simp_thms)

text \<open>
  An edge that ends before it starts, carries a negative amount of a resource with a
  negative unit mass, and has more net cargo than max cargo, in mass and in volume, is
  constructed as it is given.
\<close>

theorem impossible_edge_demand_constructed:
  "model_validator EdgeDemand_validate (JObj
     [(''startTime'', JFloat (Finite 5)),
      (''endTime'', JFloat (Finite 2)),
      (''origin'', JObj [(''id'', JInt 1), (''name'', JStr ''KSC'')]),
      (''destination'', JObj [(''id'', JInt 2), (''name'', JStr ''LEO'')]),
      (''location'', JObj [(''id'', JInt 3), (''name'', JStr ''KSC-LEO'')]),
      (''consumption'', JArr [JObj
         [(''resource'', JObj
            [(''type'', JStr ''Generic''), (''name'', JStr ''Water''),
             (''classOfSupply'', JInt 201), (''environment'', JStr ''Pressurized''),
             (''units'', JStr ''kg''), (''unitMass'', JFloat (Finite (- 1))),
             (''unitVolume'', JFloat (Finite (- 1))), (''packingFactor'', JFloat (Finite 0))]),
          (''amount'', JFloat (Finite (- 4))),
          (''mass'', JFloat (Finite (- 4))),
          (''volume'', JFloat (Finite (- 4)))]]),
      (''totalMass'', JFloat (Finite (- 4))),
      (''totalVolume'', JFloat (Finite (- 4))),
      (''maxCargoMass'', JFloat (Finite 100)),
      (''netCargoMass'', JFloat (Finite 250)),
      (''maxCargoVolume'', JFloat (Finite 3)),
      (''netCargoVolume'', JFloat (Finite 7))])
   = Inr \<lparr>start_time = Finite 5, end_time = Finite 2,
       origin = \<lparr>Location.id = 1, name = ''KSC''\<rparr>,
       destination = \<lparr>Location.id = 2, name = ''LEO''\<rparr>,
       location = \<lparr>Location.id = 3, name = ''KSC-LEO''\<rparr>,
       consumption =
         [\<lparr>resource = \<lparr>type = generic, name = ''Water'', class_of_supply = 201,
             environment = pressurized, units = ''kg'', unit_mass = Finite (- 1),
             unit_volume = Finite (- 1), packing_factor = Finite 0\<rparr>,
           amount = Finite (- 4), mass = Finite (- 4), volume = Finite (- 4)\<rparr>],
       production = [], total_mass = Finite (- 4), total_volume = Finite (- 4),
       max_cargo_mass = Finite 100, net_cargo_mass = Finite 250,
       max_cargo_volume = Finite 3, net_cargo_volume = Finite 7\<rparr>
   \<and> float_lt (Finite (- 4)) (Finite 0)
   \<and> float_lt (Finite 2) (Finite 5)
   \<and> \<not> float_le (Finite 250) (Finite 100)
   \<and> \<not> float_le (Finite 7) (Finite 3)"
  by (simp add: EdgeDemand_validate_def Resource_validate_def ResourceType_validate_def
      Location_validate_def field_defs list_validator_def ResourceTypeType_validator_def
      Environment_validator_def float_le_def)

section \<open>Defaults\<close>

text \<open>
  C9. The list fields default to the empty list and the element to \<open>None\<close>: the
  document \<open>{}\<close> parses to a RawDemandsAnalysis without demands and to an
  AggregatedDemandsAnalysis without nodes and edges, and a RawDemand given only its time,
  location and totals parses with no element, no consumption and no production.
\<close>

theorem list_and_element_fields_default:
  "parse_obj RawDemandsAnalysis_validate (JObj []) = Inr \<lparr>demands = []\<rparr>
   \<and> parse_obj AggregatedDemandsAnalysis_validate (JObj []) = Inr \<lparr>nodes = [], edges = []\<rparr>
   \<and> model_validator RawDemand_validate (JObj
        [(''time'', JFloat t), (''location'', Location_json l),
         (''totalMass'', JFloat m), (''totalVolume'', JFloat v)])
      = Inr \<lparr>RawDemand.time = t, location = l, element = None, consumption = [],
          production = [], total_mass = m, total_volume = v\<rparr>"
  by (simp add: parse_obj_def RawDemandsAnalysis_validate_def
      AggregatedDemandsAnalysis_validate_def RawDemand_validate_def required_def
      with_default_def optional_def field_value_def dict_get_def
      model_validator_def [of RawDemand_validate] Location_as_field
      not_none_def [of float_validator])

section \<open>Numbers that are not finite\<close>

text \<open>
  C6 (as the code has it). A float field has no constraint, so a number that is not finite
  is accepted: a raw or aggregated analysis with a NaN or an infinity in any of its numeric
  fields is parsed from its JSON without an error, and the object carries the value.
\<close>

theorem non_finite_numbers_accepted:
  "(\<not> list_all isfinite (RawDemandsAnalysis_floats a) \<longrightarrow>
      parse_obj RawDemandsAnalysis_validate (RawDemandsAnalysis_json a) = Inr a)
   \<and> (\<not> list_all isfinite (AggregatedDemandsAnalysis_floats g) \<longrightarrow>
      parse_obj AggregatedDemandsAnalysis_validate (AggregatedDemandsAnalysis_json g) = Inr g)"
  by (simp add: RawDemandsAnalysis_roundtrip AggregatedDemandsAnalysis_roundtrip)

theorem non_finite_numbers_accepted_witness:
  "\<not> list_all isfinite (RawDemandsAnalysis_floats
      \<lparr>demands = [\<lparr>RawDemand.time = NaN, location = \<lparr>Location.id = 1, name = ''KSC''\<rparr>,
         element = None, consumption = [], production = [], total_mass = PosInf,
         total_volume = NegInf\<rparr>]\<rparr>)
   \<and> parse_obj RawDemandsAnalysis_validate (RawDemandsAnalysis_json
      \<lparr>demands = [\<lparr>RawDemand.time = NaN, location = \<lparr>Location.id = 1, name = ''KSC''\<rparr>,
         element = None, consumption = [], production = [], total_mass = PosInf,
         total_volume = NegInf\<rparr>]\<rparr>)
     = Inr \<lparr>demands = [\<lparr>RawDemand.time = NaN, location = \<lparr>Location.id = 1, name = ''KSC''\<rparr>,
         element = None, consumption = [], production = [], total_mass = PosInf,
         total_volume = NegInf\<rparr>]\<rparr>
   \<and> \<not> list_all isfinite (AggregatedDemandsAnalysis_floats
      \<lparr>nodes = [\<lparr>NodeDemand.time = PosInf, location = \<lparr>Location.id = 1, name = ''KSC''\<rparr>,
         consumption = [], production = [], total_mass = NaN, total_volume = NaN\<rparr>],
       edges = []\<rparr>)
   \<and> parse_obj AggregatedDemandsAnalysis_validate (AggregatedDemandsAnalysis_json
      \<lparr>nodes = [\<lparr>NodeDemand.time = PosInf, location = \<lparr>Location.id = 1, name = ''KSC''\<rparr>,
         consumption = [], production = [], total_mass = NaN, total_volume = NaN\<rparr>],
       edges = []\<rparr>)
     = Inr \<lparr>nodes = [\<lparr>NodeDemand.time = PosInf, location = \<lparr>Location.id = 1, name = ''KSC''\<rparr>,
         consumption = [], production = [], total_mass = NaN, total_volume = NaN\<rparr>],
       edges = []\<rparr>"
  using non_finite_numbers_accepted
    [of "\<lparr>demands = [\<lparr>RawDemand.time = NaN, location = \<lparr>Location.id = 1, name = ''KSC''\<rparr>,
         element = None, consumption = [], production = [], total_mass = PosInf,
         total_volume = NegInf\<rparr>]\<rparr>"
        "\<lparr>nodes = [\<lparr>NodeDemand.time = PosInf, location = \<lparr>Location.id = 1, name = ''KSC''\<rparr>,
         consumption = [], production = [], total_mass = NaN, total_volume = NaN\<rparr>],
       edges = []\<rparr>"]
  by (simp add: RawDemandsAnalysis_floats_def RawDemand_floats_def
      AggregatedDemandsAnalysis_floats_def NodeDemand_floats_def)

text \<open>
  The document of one demand at time \<open>NaN\<close> with an infinite total mass and total
  volume parses to that demand.
\<close>

theorem nan_and_infinity_parsed:
  "parse_obj RawDemandsAnalysis_validate (JObj
     [(''demands'', JArr [JObj
        [(''time'', JFloat NaN),
         (''location'', JObj [(''id'', JInt 1), (''name'', JStr ''KSC'')]),
         (''totalMass'', JFloat PosInf),
         (''totalVolume'', JFloat NegInf)]])])
   = Inr \<lparr>demands = [\<lparr>RawDemand.time = NaN, location = \<lparr>Location.id = 1, name = ''KSC''\<rparr>,
       element = None, consumption = [], production = [], total_mass = PosInf,
       total_volume = NegInf\<rparr>]\<rparr>"
  by (simp add: parse_obj_def RawDemandsAnalysis_validate_def RawDemand_validate_def
      Location_validate_def field_defs list_validator_def)

section \<open>The round trip\<close>

lemma float_eq_same: "float_eq x x = (x \<noteq> NaN)"
  by (cases x) simp_all

lemma ResourceType_eq_same: "ResourceType_eq t t = (NaN \<notin> set (ResourceType_floats t))"
  by (auto simp add: ResourceType_eq_def ResourceType_floats_def float_eq_same)

lemma Resource_eq_same: "Resource_eq r r = (NaN \<notin> set (Resource_floats r))"
  by (auto simp add: Resource_eq_def Resource_floats_def float_eq_same ResourceType_eq_same)

lemma Resource_list_eq_same:
  "list_all2 Resource_eq rs rs = (NaN \<notin> set (concat (map Resource_floats rs)))"
  by (auto simp add: list_all2_same Resource_eq_same)

lemma RawDemand_eq_same: "RawDemand_eq x x = (NaN \<notin> set (RawDemand_floats x))"
  by (auto simp add: RawDemand_eq_def RawDemand_floats_def float_eq_same Resource_list_eq_same)

lemma RawDemandsAnalysis_eq_same:
  "RawDemandsAnalysis_eq a a = (NaN \<notin> set (RawDemandsAnalysis_floats a))"
  by (auto simp add: RawDemandsAnalysis_eq_def RawDemandsAnalysis_floats_def list_all2_same
      RawDemand_eq_same)

text \<open>
  C8 (as the code has it). Serialising a RawDemandsAnalysis none of whose numbers is NaN to
  its canonical JSON and parsing that back yields an object equal to the original.
\<close>

theorem roundtrip_equal_without_nan:
  assumes "NaN \<notin> set (RawDemandsAnalysis_floats a)"
  shows "\<exists>b. parse_obj RawDemandsAnalysis_validate (RawDemandsAnalysis_json a) = Inr b
           \<and> RawDemandsAnalysis_eq b a"
  using assms by (simp add: RawDemandsAnalysis_roundtrip RawDemandsAnalysis_eq_same)

theorem roundtrip_equal_without_nan_witness:
  "NaN \<notin> set (RawDemandsAnalysis_floats
      \<lparr>demands = [\<lparr>RawDemand.time = Finite 3, location = \<lparr>Location.id = 1, name = ''KSC''\<rparr>,
         element = Some \<lparr>Element.id = 7, name = ''Lander''\<rparr>, consumption = [],
         production = [], total_mass = PosInf, total_volume = Finite 0\<rparr>]\<rparr>)
   \<and> (\<exists>b. parse_obj RawDemandsAnalysis_validate (RawDemandsAnalysis_json
      \<lparr>demands = [\<lparr>RawDemand.time = Finite 3, location = \<lparr>Location.id = 1, name = ''KSC''\<rparr>,
         element = Some \<lparr>Element.id = 7, name = ''Lander''\<rparr>, consumption = [],
         production = [], total_mass = PosInf, total_volume = Finite 0\<rparr>]\<rparr>) = Inr b
      \<and> RawDemandsAnalysis_eq b
      \<lparr>demands = [\<lparr>RawDemand.time = Finite 3, location = \<lparr>Location.id = 1, name = ''KSC''\<rparr>,
         element = Some \<lparr>Element.id = 7, name = ''Lander''\<rparr>, consumption = [],
         production = [], total_mass = PosInf, total_volume = Finite 0\<rparr>]\<rparr>)"
proof -
  have h: "NaN \<notin> set (RawDemandsAnalysis_floats
      \<lparr>demands = [\<lparr>RawDemand.time = Finite 3, location = \<lparr>Location.id = 1, name = ''KSC''\<rparr>,
         element = Some \<lparr>Element.id = 7, name = ''Lander''\<rparr>, consumption = [],
         production = [], total_mass = PosInf, total_volume = Finite 0\<rparr>]\<rparr>)"
    by (simp add: RawDemandsAnalysis_floats_def RawDemand_floats_def)
  show ?thesis using h roundtrip_equal_without_nan [OF h] by blast
qed

text \<open>
  With a NaN the parse still yields the same fields, but the parsed object is not equal to
  a constructed original: its NaN is another float object, and NaN is not equal to NaN.
\<close>

theorem roundtrip_nan_not_equal:
  "parse_obj RawDemandsAnalysis_validate (RawDemandsAnalysis_json
      \<lparr>demands = [\<lparr>RawDemand.time = NaN, location = \<lparr>Location.id = 1, name = ''KSC''\<rparr>,
         element = None, consumption = [], production = [], total_mass = Finite 0,
         total_volume = Finite 0\<rparr>]\<rparr>)
    = Inr \<lparr>demands = [\<lparr>RawDemand.time = NaN, location = \<lparr>Location.id = 1, name = ''KSC''\<rparr>,
         element = None, consumption = [], production = [], total_mass = Finite 0,
         total_volume = Finite 0\<rparr>]\<rparr>
   \<and> \<not> RawDemandsAnalysis_eq
      \<lparr>demands = [\<lparr>RawDemand.time = NaN, location = \<lparr>Location.id = 1, name = ''KSC''\<rparr>,
         element = None, consumption = [], production = [], total_mass = Finite 0,
         total_volume = Finite 0\<rparr>]\<rparr>
      \<lparr>demands = [\<lparr>RawDemand.time = NaN, location = \<lparr>Location.id = 1, name = ''KSC''\<rparr>,
         element = None, consumption = [], production = [], total_mass = Finite 0,
         total_volume = Finite 0\<rparr>]\<rparr>"
  by (simp add: RawDemandsAnalysis_roundtrip RawDemandsAnalysis_eq_def RawDemand_eq_def)

section \<open>Strictness of the decoding\<close>

text \<open>
  The errors of a model are the errors of its fields, in the order of the declaration;
  an error of a nested model or of an element of a list is reported with the alias of the
  field, and the index of the element, in front of its location.
\<close>

lemma errs_under_loc: "errs (under_loc p r) = map (at_loc p) (errs r)"
  by (cases r) simp_all

lemma errs_required:
  "errs (required d field_alias field_name validator) =
     (case field_value d field_alias field_name of
        None \<Rightarrow> [([Key field_alias], value_error_missing)]
      | Some v \<Rightarrow> map (at_loc [Key field_alias]) (errs (not_none validator v)))"
  by (simp add: required_def errs_under_loc split: option.split)

lemma errs_with_default:
  "errs (with_default d field_alias field_name dflt validator) =
     (case field_value d field_alias field_name of
        None \<Rightarrow> []
      | Some v \<Rightarrow> map (at_loc [Key field_alias]) (errs (not_none validator v)))"
  by (simp add: with_default_def errs_under_loc split: option.split)

lemma errs_optional_dict:
  "field_value d field_alias field_name = Some (JObj d') \<Longrightarrow>
   errs (optional d field_alias field_name (model_validator validate_model)) =
     map (at_loc [Key field_alias]) (errs (validate_model d'))"
  by (simp add: optional_def errs_under_loc errs_ap model_validator_def)

lemma not_none_dict: "not_none (model_validator validate_model) (JObj d) = validate_model d"
  by (simp add: not_none_def model_validator_def)

lemma not_none_list:
  "not_none (list_validator validator) (JArr vs) = list_items validator 0 vs"
  by (simp add: not_none_def list_validator_def)

lemma at_loc_append: "at_loc p (at_loc q e) = at_loc (p @ q) e"
  by (simp add: at_loc_def)

lemma errs_list_items:
  "i < length vs \<Longrightarrow> e \<in> set (errs (not_none validator (vs ! i))) \<Longrightarrow>
   at_loc [Idx (k + i)] e \<in> set (errs (list_items validator k vs))"
proof (induction vs arbitrary: i k)
  case Nil
  then show ?case by simp
next
  case (Cons v vs)
  show ?case
  proof (cases i)
    case 0
    with Cons.prems show ?thesis by (simp add: errs_ap errs_under_loc)
  next
    case (Suc j)
    with Cons.prems have "at_loc [Idx (Suc k + j)] e \<in> set (errs (list_items validator (Suc k) vs))"
      by (intro Cons.IH) simp_all
    with Suc show ?thesis by (simp add: errs_ap)
  qed
qed

lemma errs_model_list:
  assumes "i < length vs" and "vs ! i = JObj d'" and "e \<in> set (errs (validate_model d'))"
  shows "at_loc [Key field_alias, Idx i] e \<in> set (map (at_loc [Key field_alias])
           (errs (not_none (list_validator (model_validator validate_model)) (JArr vs))))"
proof -
  have "e \<in> set (errs (not_none (model_validator validate_model) (vs ! i)))"
    using assms by (simp add: not_none_dict)
  then have "at_loc [Idx (0 + i)] e \<in> set (errs (list_items (model_validator validate_model) 0 vs))"
    using assms(1) by (rule errs_list_items [rotated])
  then have "at_loc [Key field_alias] (at_loc [Idx i] e)
      \<in> set (map (at_loc [Key field_alias]) (errs (list_items (model_validator validate_model) 0 vs)))"
    by simp
  then show ?thesis by (simp add: at_loc_append not_none_list)
qed

lemma errs_model_field:
  assumes "e \<in> set (errs (validate_model d'))"
  shows "at_loc [Key field_alias] e \<in> set (map (at_loc [Key field_alias])
           (errs (not_none (model_validator validate_model) (JObj d'))))"
  using assms by (simp add: not_none_dict)

lemma errs_enum_ResourceTypeType:
  "v \<notin> {JStr ''Generic'', JStr ''Continuous'', JStr ''Discrete''} \<Longrightarrow>
   [Key field_alias] \<in> fst ` set (map (at_loc [Key field_alias]) (errs (not_none ResourceTypeType_validator v)))"
  by (cases v) (simp_all add: not_none_def ResourceTypeType_validator_def at_loc_def)

lemma errs_enum_Environment:
  "v \<notin> {JStr ''Pressurized'', JStr ''Unpressurized''} \<Longrightarrow>
   [Key field_alias] \<in> fst ` set (map (at_loc [Key field_alias]) (errs (not_none Environment_validator v)))"
  by (cases v) (simp_all add: not_none_def Environment_validator_def at_loc_def)

lemma ResourceType_missing:
  "(field_alias, field_name) \<in> set [(''type'', ''type''), (''name'', ''name''),
      (''classOfSupply'', ''class_of_supply''), (''environment'', ''environment''),
      (''units'', ''units''), (''unitMass'', ''unit_mass''), (''unitVolume'', ''unit_volume''),
      (''packingFactor'', ''packing_factor'')] \<Longrightarrow>
   field_value d field_alias field_name = None \<Longrightarrow>
   ([Key field_alias], value_error_missing) \<in> set (errs (ResourceType_validate d))"
  by (auto simp add: ResourceType_validate_def errs_ap errs_required)

lemma ResourceType_enum:
  "field_value d ''type'' ''type'' = Some v \<Longrightarrow>
   v \<notin> {JStr ''Generic'', JStr ''Continuous'', JStr ''Discrete''} \<Longrightarrow>
   [Key ''type''] \<in> fst ` set (errs (ResourceType_validate d))"
  "field_value d ''environment'' ''environment'' = Some v \<Longrightarrow>
   v \<notin> {JStr ''Pressurized'', JStr ''Unpressurized''} \<Longrightarrow>
   [Key ''environment''] \<in> fst ` set (errs (ResourceType_validate d))"
  using errs_enum_ResourceTypeType [of v "''type''"] errs_enum_Environment [of v "''environment''"]
  by (auto simp add: ResourceType_validate_def errs_ap errs_required image_Un)

lemma Location_missing:
  "(field_alias, field_name) \<in> set
     [(''id'', ''id''), (''name'', ''name'')] \<Longrightarrow>
   field_value d field_alias field_name = None \<Longrightarrow>
   ([Key field_alias], value_error_missing) \<in> set (errs (Location_validate d))"
  by (auto simp add: Location_validate_def errs_ap errs_required)

lemma Element_missing:
  "(field_alias, field_name) \<in> set
     [(''id'', ''id''), (''name'', ''name'')] \<Longrightarrow>
   field_value d field_alias field_name = None \<Longrightarrow>
   ([Key field_alias], value_error_missing) \<in> set (errs (Element_validate d))"
  by (auto simp add: Element_validate_def errs_ap errs_required)

lemma Resource_missing:
  "(field_alias, field_name) \<in> set
     [(''resource'', ''resource''), (''amount'', ''amount''), (''mass'', ''mass''),
      (''volume'', ''volume'')] \<Longrightarrow>
   field_value d field_alias field_name = None \<Longrightarrow>
   ([Key field_alias], value_error_missing) \<in> set (errs (Resource_validate d))"
  by (auto simp add: Resource_validate_def errs_ap errs_required)

lemma RawDemand_missing:
  "(field_alias, field_name) \<in> set
     [(''time'', ''time''), (''location'', ''location''), (''totalMass'', ''total_mass''),
      (''totalVolume'', ''total_volume'')] \<Longrightarrow>
   field_value d field_alias field_name = None \<Longrightarrow>
   ([Key field_alias], value_error_missing) \<in> set (errs (RawDemand_validate d))"
  by (auto simp add: RawDemand_validate_def errs_ap errs_required)

lemma NodeDemand_missing:
  "(field_alias, field_name) \<in> set
     [(''time'', ''time''), (''location'', ''location''), (''totalMass'', ''total_mass''),
      (''totalVolume'', ''total_volume'')] \<Longrightarrow>
   field_value d field_alias field_name = None \<Longrightarrow>
   ([Key field_alias], value_error_missing) \<in> set (errs (NodeDemand_validate d))"
  by (auto simp add: NodeDemand_validate_def errs_ap errs_required)

lemma EdgeDemand_missing:
  "(field_alias, field_name) \<in> set
     [(''startTime'', ''start_time''), (''endTime'', ''end_time''),
      (''origin'', ''origin''), (''destination'', ''destination''),
      (''location'', ''location''), (''totalMass'', ''total_mass''),
      (''totalVolume'', ''total_volume''), (''maxCargoMass'', ''max_cargo_mass''),
      (''netCargoMass'', ''net_cargo_mass''), (''maxCargoVolume'', ''max_cargo_volume''),
      (''netCargoVolume'', ''net_cargo_volume'')] \<Longrightarrow>
   field_value d field_alias field_name = None \<Longrightarrow>
   ([Key field_alias], value_error_missing) \<in> set (errs (EdgeDemand_validate d))"
  by (auto simp add: EdgeDemand_validate_def errs_ap errs_required)

lemma Resource_nested:
  "field_value d ''resource'' ''resource'' = Some (JObj d') \<Longrightarrow>
   e \<in> set (errs (ResourceType_validate d')) \<Longrightarrow>
   at_loc [Key ''resource''] e \<in> set (errs (Resource_validate d))"
  using errs_model_field [of e ResourceType_validate d' "''resource''"]
  by (auto simp add: Resource_validate_def errs_ap errs_required errs_optional_dict not_none_dict)

lemma RawDemand_location:
  "field_value d ''location'' ''location'' = Some (JObj d') \<Longrightarrow>
   e \<in> set (errs (Location_validate d')) \<Longrightarrow>
   at_loc [Key ''location''] e \<in> set (errs (RawDemand_validate d))"
  using errs_model_field [of e Location_validate d' "''location''"]
  by (auto simp add: RawDemand_validate_def errs_ap errs_required errs_optional_dict not_none_dict)

lemma RawDemand_element:
  "field_value d ''element'' ''element'' = Some (JObj d') \<Longrightarrow>
   e \<in> set (errs (Element_validate d')) \<Longrightarrow>
   at_loc [Key ''element''] e \<in> set (errs (RawDemand_validate d))"
  using errs_model_field [of e Element_validate d' "''element''"]
  by (auto simp add: RawDemand_validate_def errs_ap errs_required errs_optional_dict not_none_dict)

lemma RawDemand_resources:
  "field_alias \<in> {''consumption'', ''production''} \<Longrightarrow>
   field_value d field_alias field_alias = Some (JArr vs) \<Longrightarrow>
   i < length vs \<Longrightarrow> vs ! i = JObj d' \<Longrightarrow>
   e \<in> set (errs (Resource_validate d')) \<Longrightarrow>
   at_loc [Key field_alias, Idx i] e \<in> set (errs (RawDemand_validate d))"
  using errs_model_list [of i vs d' e Resource_validate field_alias]
  by (auto simp add: RawDemand_validate_def errs_ap errs_required errs_with_default)

lemma NodeDemand_location:
  "field_value d ''location'' ''location'' = Some (JObj d') \<Longrightarrow>
   e \<in> set (errs (Location_validate d')) \<Longrightarrow>
   at_loc [Key ''location''] e \<in> set (errs (NodeDemand_validate d))"
  using errs_model_field [of e Location_validate d' "''location''"]
  by (auto simp add: NodeDemand_validate_def errs_ap errs_required errs_optional_dict not_none_dict)

lemma NodeDemand_resources:
  "field_alias \<in> {''consumption'', ''production''} \<Longrightarrow>
   field_value d field_alias field_alias = Some (JArr vs) \<Longrightarrow>
   i < length vs \<Longrightarrow> vs ! i = JObj d' \<Longrightarrow>
   e \<in> set (errs (Resource_validate d')) \<Longrightarrow>
   at_loc [Key field_alias, Idx i] e \<in> set (errs (NodeDemand_validate d))"
  using errs_model_list [of i vs d' e Resource_validate field_alias]
  by (auto simp add: NodeDemand_validate_def errs_ap errs_required errs_with_default)

lemma EdgeDemand_locations:
  "field_alias \<in> {''origin'', ''destination'', ''location''} \<Longrightarrow>
   field_value d field_alias field_alias = Some (JObj d') \<Longrightarrow>
   e \<in> set (errs (Location_validate d')) \<Longrightarrow>
   at_loc [Key field_alias] e \<in> set (errs (EdgeDemand_validate d))"
  using errs_model_field [of e Location_validate d' field_alias]
  by (auto simp add: EdgeDemand_validate_def errs_ap errs_required errs_optional_dict not_none_dict)

lemma EdgeDemand_resources:
  "field_alias \<in> {''consumption'', ''production''} \<Longrightarrow>
   field_value d field_alias field_alias = Some (JArr vs) \<Longrightarrow>
   i < length vs \<Longrightarrow> vs ! i = JObj d' \<Longrightarrow>
   e \<in> set (errs (Resource_validate d')) \<Longrightarrow>
   at_loc [Key field_alias, Idx i] e \<in> set (errs (EdgeDemand_validate d))"
  using errs_model_list [of i vs d' e Resource_validate field_alias]
  by (auto simp add: EdgeDemand_validate_def errs_ap errs_required errs_with_default)

lemma RawDemandsAnalysis_demands:
  "field_value d ''demands'' ''demands'' = Some (JArr vs) \<Longrightarrow>
   i < length vs \<Longrightarrow> vs ! i = JObj d' \<Longrightarrow>
   e \<in> set (errs (RawDemand_validate d')) \<Longrightarrow>
   at_loc [Key ''demands'', Idx i] e \<in> set (errs (parse_obj RawDemandsAnalysis_validate (JObj d)))"
  using errs_model_list [of i vs d' e RawDemand_validate "''demands''"]
  by (auto simp add: RawDemandsAnalysis_validate_def errs_ap errs_required errs_with_default parse_obj_def)

lemma AggregatedDemandsAnalysis_nodes:
  "field_value d ''nodes'' ''nodes'' = Some (JArr vs) \<Longrightarrow>
   i < length vs \<Longrightarrow> vs ! i = JObj d' \<Longrightarrow>
   e \<in> set (errs (NodeDemand_validate d')) \<Longrightarrow>
   at_loc [Key ''nodes'', Idx i] e \<in> set (errs (parse_obj AggregatedDemandsAnalysis_validate (JObj d)))"
  using errs_model_list [of i vs d' e NodeDemand_validate "''nodes''"]
  by (auto simp add: AggregatedDemandsAnalysis_validate_def errs_ap errs_required errs_with_default parse_obj_def)

lemma AggregatedDemandsAnalysis_edges:
  "field_value d ''edges'' ''edges'' = Some (JArr vs) \<Longrightarrow>
   i < length vs \<Longrightarrow> vs ! i = JObj d' \<Longrightarrow>
   e \<in> set (errs (EdgeDemand_validate d')) \<Longrightarrow>
   at_loc [Key ''edges'', Idx i] e \<in> set (errs (parse_obj AggregatedDemandsAnalysis_validate (JObj d)))"
  using errs_model_list [of i vs d' e EdgeDemand_validate "''edges''"]
  by (auto simp add: AggregatedDemandsAnalysis_validate_def errs_ap errs_required errs_with_default parse_obj_def)

lemma RawDemandsAnalysis_unknown_keys:
  "field_value d ''demands'' ''demands'' = None \<Longrightarrow>
   parse_obj RawDemandsAnalysis_validate (JObj d) = Inr \<lparr>demands = []\<rparr>"
  by (simp add: parse_obj_def RawDemandsAnalysis_validate_def with_default_def)

lemma AggregatedDemandsAnalysis_unknown_keys:
  "field_value d ''nodes'' ''nodes'' = None \<Longrightarrow> field_value d ''edges'' ''edges'' = None \<Longrightarrow>
   parse_obj AggregatedDemandsAnalysis_validate (JObj d) = Inr \<lparr>nodes = [], edges = []\<rparr>"
  by (simp add: parse_obj_def AggregatedDemandsAnalysis_validate_def with_default_def)

text \<open>
  C2 (as the code has it). Decoding is strict on the declared fields. In every model, a
  required field that is absent (under its alias and under its name) is reported as
  missing at its alias; a \<open>type\<close> or \<open>environment\<close> of a ResourceType that is not
  one of the declared values is reported at that field; and an error inside a nested model
  or inside an element of a list field is reported by the enclosing model, up to the
  analysis that is parsed, with the path to it in front. A result with an error is a
  failure: \<open>errs\<close> of a parsed object is empty. The shape of the top level is not
  checked: a document without the list fields of the analysis parses to the empty analysis,
  whatever other keys it has.
\<close>

theorem decoding_strict_on_fields:
  "((field_alias, field_name) \<in> set
        [(''type'', ''type''), (''name'', ''name''),
         (''classOfSupply'', ''class_of_supply''), (''environment'', ''environment''),
         (''units'', ''units''), (''unitMass'', ''unit_mass''),
         (''unitVolume'', ''unit_volume''), (''packingFactor'', ''packing_factor'')]
      \<and> field_value d field_alias field_name = None \<longrightarrow>
      ([Key field_alias], value_error_missing) \<in> set (errs (ResourceType_validate d)))
   \<and> ((field_alias, field_name) \<in> set
        [(''id'', ''id''), (''name'', ''name'')]
      \<and> field_value d field_alias field_name = None \<longrightarrow>
      ([Key field_alias], value_error_missing) \<in> set (errs (Location_validate d)))
   \<and> ((field_alias, field_name) \<in> set
        [(''id'', ''id''), (''name'', ''name'')]
      \<and> field_value d field_alias field_name = None \<longrightarrow>
      ([Key field_alias], value_error_missing) \<in> set (errs (Element_validate d)))
   \<and> ((field_alias, field_name) \<in> set
        [(''resource'', ''resource''), (''amount'', ''amount''), (''mass'', ''mass''),
         (''volume'', ''volume'')]
      \<and> field_value d field_alias field_name = None \<longrightarrow>
      ([Key field_alias], value_error_missing) \<in> set (errs (Resource_validate d)))
   \<and> ((field_alias, field_name) \<in> set
        [(''time'', ''time''), (''location'', ''location''), (''totalMass'', ''total_mass''),
         (''totalVolume'', ''total_volume'')]
      \<and> field_value d field_alias field_name = None \<longrightarrow>
      ([Key field_alias], value_error_missing) \<in> set (errs (RawDemand_validate d)))
   \<and> ((field_alias, field_name) \<in> set
        [(''time'', ''time''), (''location'', ''location''), (''totalMass'', ''total_mass''),
         (''totalVolume'', ''total_volume'')]
      \<and> field_value d field_alias field_name = None \<longrightarrow>
      ([Key field_alias], value_error_missing) \<in> set (errs (NodeDemand_validate d)))
   \<and> ((field_alias, field_name) \<in> set
        [(''startTime'', ''start_time''), (''endTime'', ''end_time''),
         (''origin'', ''origin''), (''destination'', ''destination''),
         (''location'', ''location''), (''totalMass'', ''total_mass''),
         (''totalVolume'', ''total_volume''), (''maxCargoMass'', ''max_cargo_mass''),
         (''netCargoMass'', ''net_cargo_mass''), (''maxCargoVolume'', ''max_cargo_volume''),
         (''netCargoVolume'', ''net_cargo_volume'')]
      \<and> field_value d field_alias field_name = None \<longrightarrow>
      ([Key field_alias], value_error_missing) \<in> set (errs (EdgeDemand_validate d)))
   \<and> (field_value d ''type'' ''type'' = Some v
      \<and> v \<notin> {JStr ''Generic'', JStr ''Continuous'', JStr ''Discrete''} \<longrightarrow>
      [Key ''type''] \<in> fst ` set (errs (ResourceType_validate d)))
   \<and> (field_value d ''environment'' ''environment'' = Some v
      \<and> v \<notin> {JStr ''Pressurized'', JStr ''Unpressurized''} \<longrightarrow>
      [Key ''environment''] \<in> fst ` set (errs (ResourceType_validate d)))
   \<and> (field_value d ''resource'' ''resource'' = Some (JObj d')
      \<and> e \<in> set (errs (ResourceType_validate d')) \<longrightarrow>
      at_loc [Key ''resource''] e \<in> set (errs (Resource_validate d)))
   \<and> (field_value d ''location'' ''location'' = Some (JObj d')
      \<and> e \<in> set (errs (Location_validate d')) \<longrightarrow>
      at_loc [Key ''location''] e \<in> set (errs (RawDemand_validate d)))
   \<and> (field_value d ''element'' ''element'' = Some (JObj d')
      \<and> e \<in> set (errs (Element_validate d')) \<longrightarrow>
      at_loc [Key ''element''] e \<in> set (errs (RawDemand_validate d)))
   \<and> (field_alias \<in> {''consumption'', ''production''}
      \<and> field_value d field_alias field_alias = Some (JArr vs) \<and> i < length vs \<and> vs ! i = JObj d'
      \<and> e \<in> set (errs (Resource_validate d')) \<longrightarrow>
      at_loc [Key field_alias, Idx i] e \<in> set (errs (RawDemand_validate d)))
   \<and> (field_value d ''location'' ''location'' = Some (JObj d')
      \<and> e \<in> set (errs (Location_validate d')) \<longrightarrow>
      at_loc [Key ''location''] e \<in> set (errs (NodeDemand_validate d)))
   \<and> (field_alias \<in> {''consumption'', ''production''}
      \<and> field_value d field_alias field_alias = Some (JArr vs) \<and> i < length vs \<and> vs ! i = JObj d'
      \<and> e \<in> set (errs (Resource_validate d')) \<longrightarrow>
      at_loc [Key field_alias, Idx i] e \<in> set (errs (NodeDemand_validate d)))
   \<and> (field_alias \<in> {''origin'', ''destination'', ''location''}
      \<and> field_value d field_alias field_alias = Some (JObj d')
      \<and> e \<in> set (errs (Location_validate d')) \<longrightarrow>
      at_loc [Key field_alias] e \<in> set (errs (EdgeDemand_validate d)))
   \<and> (field_alias \<in> {''consumption'', ''production''}
      \<and> field_value d field_alias field_alias = Some (JArr vs) \<and> i < length vs \<and> vs ! i = JObj d'
      \<and> e \<in> set (errs (Resource_validate d')) \<longrightarrow>
      at_loc [Key field_alias, Idx i] e \<in> set (errs (EdgeDemand_validate d)))
   \<and> (field_value d ''demands'' ''demands'' = Some (JArr vs) \<and> i < length vs \<and> vs ! i = JObj d'
      \<and> e \<in> set (errs (RawDemand_validate d')) \<longrightarrow>
      at_loc [Key ''demands'', Idx i] e \<in> set (errs (parse_obj RawDemandsAnalysis_validate (JObj d))))
   \<and> (field_value d ''nodes'' ''nodes'' = Some (JArr vs) \<and> i < length vs \<and> vs ! i = JObj d'
      \<and> e \<in> set (errs (NodeDemand_validate d')) \<longrightarrow>
      at_loc [Key ''nodes'', Idx i] e \<in> set (errs (parse_obj AggregatedDemandsAnalysis_validate (JObj d))))
   \<and> (field_value d ''edges'' ''edges'' = Some (JArr vs) \<and> i < length vs \<and> vs ! i = JObj d'
      \<and> e \<in> set (errs (EdgeDemand_validate d')) \<longrightarrow>
      at_loc [Key ''edges'', Idx i] e \<in> set (errs (parse_obj AggregatedDemandsAnalysis_validate (JObj d))))
   \<and> (field_value d ''demands'' ''demands'' = None \<longrightarrow>
      parse_obj RawDemandsAnalysis_validate (JObj d) = Inr \<lparr>demands = []\<rparr>)
   \<and> (field_value d ''nodes'' ''nodes'' = None \<and> field_value d ''edges'' ''edges'' = None \<longrightarrow>
      parse_obj AggregatedDemandsAnalysis_validate (JObj d) = Inr \<lparr>nodes = [], edges = []\<rparr>)"
  by (intro conjI impI; (elim conjE)?;
      rule ResourceType_missing Location_missing Element_missing Resource_missing
        RawDemand_missing NodeDemand_missing EdgeDemand_missing ResourceType_enum
        Resource_nested RawDemand_location RawDemand_element RawDemand_resources
        NodeDemand_location NodeDemand_resources EdgeDemand_locations EdgeDemand_resources
        RawDemandsAnalysis_demands AggregatedDemandsAnalysis_nodes
        AggregatedDemandsAnalysis_edges RawDemandsAnalysis_unknown_keys
        AggregatedDemandsAnalysis_unknown_keys; assumption)

text \<open>
  The document with the resource type \<open>Liquid\<close> fails with an error at
  \<open>demands.0.consumption.0.resource.type\<close>; an edge whose origin has no \<open>id\<close>
  fails at \<open>edges.0.origin.id\<close>; a document with the key \<open>nodes\<close> only parses
  to a raw analysis without demands.
\<close>

theorem decoding_strict_on_fields_witness:
  "[Key ''demands'', Idx 0, Key ''consumption'', Idx 0, Key ''resource'', Key ''type'']
     \<in> fst ` set (errs (parse_obj RawDemandsAnalysis_validate (JObj
       [(''demands'', JArr [JObj
        [(''time'', JFloat (Finite 0)),
         (''location'', JObj [(''id'', JInt 1), (''name'', JStr ''KSC'')]),
         (''consumption'', JArr [JObj
          [(''resource'', JObj
             [(''type'', JStr ''Liquid''), (''name'', JStr ''Water''), (''classOfSupply'', JInt 201),
              (''environment'', JStr ''Pressurized''), (''units'', JStr ''kg''),
              (''unitMass'', JFloat (Finite 1)), (''unitVolume'', JFloat (Finite 1)),
              (''packingFactor'', JFloat (Finite 0))]),
           (''amount'', JFloat (Finite 4)), (''mass'', JFloat (Finite 4)),
           (''volume'', JFloat (Finite 4))]]),
         (''totalMass'', JFloat (Finite 4)), (''totalVolume'', JFloat (Finite 4))]])])))
   \<and> ([Key ''edges'', Idx 0, Key ''origin'', Key ''id''], value_error_missing)
     \<in> set (errs (parse_obj AggregatedDemandsAnalysis_validate (JObj
       [(''edges'', JArr [JObj [(''origin'', JObj [(''name'', JStr ''KSC'')])]])])))
   \<and> parse_obj RawDemandsAnalysis_validate (JObj [(''nodes'', JArr [])]) = Inr \<lparr>demands = []\<rparr>"
proof -
  let ?T = "[(''type'', JStr ''Liquid''), (''name'', JStr ''Water''), (''classOfSupply'', JInt 201),
              (''environment'', JStr ''Pressurized''), (''units'', JStr ''kg''),
              (''unitMass'', JFloat (Finite 1)), (''unitVolume'', JFloat (Finite 1)),
              (''packingFactor'', JFloat (Finite 0))]"
  let ?R = "[(''resource'', JObj
             [(''type'', JStr ''Liquid''), (''name'', JStr ''Water''), (''classOfSupply'', JInt 201),
              (''environment'', JStr ''Pressurized''), (''units'', JStr ''kg''),
              (''unitMass'', JFloat (Finite 1)), (''unitVolume'', JFloat (Finite 1)),
              (''packingFactor'', JFloat (Finite 0))]),
           (''amount'', JFloat (Finite 4)), (''mass'', JFloat (Finite 4)),
           (''volume'', JFloat (Finite 4))]"
  let ?D = "[(''time'', JFloat (Finite 0)),
         (''location'', JObj [(''id'', JInt 1), (''name'', JStr ''KSC'')]),
         (''consumption'', JArr [JObj
          [(''resource'', JObj
             [(''type'', JStr ''Liquid''), (''name'', JStr ''Water''), (''classOfSupply'', JInt 201),
              (''environment'', JStr ''Pressurized''), (''units'', JStr ''kg''),
              (''unitMass'', JFloat (Finite 1)), (''unitVolume'', JFloat (Finite 1)),
              (''packingFactor'', JFloat (Finite 0))]),
           (''amount'', JFloat (Finite 4)), (''mass'', JFloat (Finite 4)),
           (''volume'', JFloat (Finite 4))]]),
         (''totalMass'', JFloat (Finite 4)), (''totalVolume'', JFloat (Finite 4))]"
  let ?top = "[(''demands'', JArr [JObj
        [(''time'', JFloat (Finite 0)),
         (''location'', JObj [(''id'', JInt 1), (''name'', JStr ''KSC'')]),
         (''consumption'', JArr [JObj
          [(''resource'', JObj
             [(''type'', JStr ''Liquid''), (''name'', JStr ''Water''), (''classOfSupply'', JInt 201),
              (''environment'', JStr ''Pressurized''), (''units'', JStr ''kg''),
              (''unitMass'', JFloat (Finite 1)), (''unitVolume'', JFloat (Finite 1)),
              (''packingFactor'', JFloat (Finite 0))]),
           (''amount'', JFloat (Finite 4)), (''mass'', JFloat (Finite 4)),
           (''volume'', JFloat (Finite 4))]]),
         (''totalMass'', JFloat (Finite 4)), (''totalVolume'', JFloat (Finite 4))]])]"
  let ?O = "[(''name'', JStr ''KSC'')]"
  let ?E = "[(''origin'', JObj [(''name'', JStr ''KSC'')])]"
  let ?A = "[(''edges'', JArr [JObj [(''origin'', JObj [(''name'', JStr ''KSC'')])]])]"
  note look = field_value_def dict_get_def
  have "[Key ''type''] \<in> fst ` set (errs (ResourceType_validate ?T))"
    using decoding_strict_on_fields [where d = ?T and v = "JStr ''Liquid''"]
    by (simp add: look)
  then obtain e where e: "e \<in> set (errs (ResourceType_validate ?T))" "fst e = [Key ''type'']"
    by auto
  have "at_loc [Key ''resource''] e \<in> set (errs (Resource_validate ?R))"
    using e(1) decoding_strict_on_fields [where d = ?R and d' = ?T and e = e]
    by (simp add: look)
  then have "at_loc [Key ''consumption'', Idx 0] (at_loc [Key ''resource''] e)
      \<in> set (errs (RawDemand_validate ?D))"
    using decoding_strict_on_fields [where d = ?D and d' = ?R and field_alias = "''consumption''"
        and vs = "[JObj ?R]" and i = 0 and e = "at_loc [Key ''resource''] e"]
    by (simp add: look)
  then have "at_loc [Key ''demands'', Idx 0]
      (at_loc [Key ''consumption'', Idx 0] (at_loc [Key ''resource''] e))
      \<in> set (errs (parse_obj RawDemandsAnalysis_validate (JObj ?top)))"
    using decoding_strict_on_fields [where d = ?top and d' = ?D and vs = "[JObj ?D]" and i = 0
        and e = "at_loc [Key ''consumption'', Idx 0] (at_loc [Key ''resource''] e)"]
    by (simp add: look)
  then have raw: "[Key ''demands'', Idx 0, Key ''consumption'', Idx 0, Key ''resource'', Key ''type'']
      \<in> fst ` set (errs (parse_obj RawDemandsAnalysis_validate (JObj ?top)))"
    using e(2) by (force simp add: at_loc_def)
  have "([Key ''id''], value_error_missing) \<in> set (errs (Location_validate ?O))"
    using decoding_strict_on_fields [where d = ?O and field_alias = "''id''" and field_name = "''id''"]
    by (simp add: look)
  then have "at_loc [Key ''origin''] ([Key ''id''], value_error_missing)
      \<in> set (errs (EdgeDemand_validate ?E))"
    using decoding_strict_on_fields [where d = ?E and d' = ?O and field_alias = "''origin''"
        and e = "([Key ''id''], value_error_missing)"]
    by (simp add: look)
  then have "at_loc [Key ''edges'', Idx 0] (at_loc [Key ''origin''] ([Key ''id''], value_error_missing))
      \<in> set (errs (parse_obj AggregatedDemandsAnalysis_validate (JObj ?A)))"
    using decoding_strict_on_fields [where d = ?A and d' = ?E and vs = "[JObj ?E]" and i = 0
        and e = "at_loc [Key ''origin''] ([Key ''id''], value_error_missing)"]
    by (simp add: look)
  then have agg: "([Key ''edges'', Idx 0, Key ''origin'', Key ''id''], value_error_missing)
      \<in> set (errs (parse_obj AggregatedDemandsAnalysis_validate (JObj ?A)))"
    by (simp add: at_loc_def)
  have unknown: "parse_obj RawDemandsAnalysis_validate (JObj [(''nodes'', JArr [])])
      = Inr \<lparr>demands = []\<rparr>"
    using decoding_strict_on_fields [where d = "[(''nodes'', JArr [])]"]
    by (simp add: look)
  show ?thesis using raw agg unknown by (intro conjI)
qed

text \<open>
  An aggregated result read as a RawDemandsAnalysis, and a document of some other shape
  read as an AggregatedDemandsAnalysis, are not refused.
\<close>

theorem unknown_shape_parsed:
  "parse_obj RawDemandsAnalysis_validate (JObj [(''nodes'', JArr []), (''edges'', JArr [])])
     = Inr \<lparr>demands = []\<rparr>
   \<and> parse_obj AggregatedDemandsAnalysis_validate (JObj [(''result'', JStr ''?'')])
     = Inr \<lparr>nodes = [], edges = []\<rparr>"
  by (simp add: parse_obj_def RawDemandsAnalysis_validate_def
      AggregatedDemandsAnalysis_validate_def with_default_def field_value_def dict_get_def)

section \<open>The two endpoints\<close>

text \<open>
  C10. The two endpoints are the same operation up to the mode: for every system,
  configuration, filename, content, consume-resources flag and state,
  \<open>analyze_raw_demands\<close> is the operation with the mode string \<open>demands-raw\<close> and the
  model RawDemandsAnalysis, and \<open>analyze_aggregated_demands\<close> the one with
  \<open>demands-agg\<close> and AggregatedDemandsAnalysis.
\<close>

theorem endpoints_differ_in_mode_and_model:
  "analyze_raw_demands = analysis ''demands-raw'' RawDemandsAnalysis_validate
   \<and> analyze_aggregated_demands = analysis ''demands-agg'' AggregatedDemandsAnalysis_validate"
  by (intro conjI ext)
    (auto simp add: analyze_raw_demands_def analyze_aggregated_demands_def analysis_def
      TemporaryDirectory_def staging_def invocation_def result_reading_def engine_args_def
      raw_demands_args_def aggregated_demands_args_def Let_def
      split: prod.splits sum.splits completed.splits option.splits)

section \<open>Requests\<close>

lemmas run_defs = analyze_raw_demands_def analyze_aggregated_demands_def TemporaryDirectory_def
  check_output_def raw_demands_args_def aggregated_demands_args_def os_path_join_def sim_os_def
  sim_start_def parse_raw_def parse_obj_def
  sim_write_def locate_def path_of_def

text \<open>
  The concrete scenario of a successful request: a scenario of ten bytes, the engine writes
  \<open>{}\<close> and exits with zero, the analysis has no demands and the working directory
  is gone.
\<close>

lemma simulated_success:
  "analyze_raw_demands (sim_os engine_writes_result)
     \<lparr>spacenet_path = ''/opt/spacenet.jar'', spacenet_timeout = TInt 10\<rparr>
     ''scenario.xml'' ''0123456789'' False sim_start
   = (Inr \<lparr>demands = []\<rparr>, sim_start)"
  by (simp add: run_defs engine_writes_result_def RawDemandsAnalysis_validate_def
      with_default_def field_value_def dict_get_def)

subsection \<open>The command line\<close>

text \<open>
  C3 (as the code has it). The command line of either endpoint has ten arguments whatever
  the consume-resources option is. The last one is \<open>-c\<close> when the option is true and
  the empty string when it is false.
\<close>

theorem consume_resources_argument:
  "length (raw_demands_args jar scenario_path results_path consume_resources) = 10
   \<and> last (raw_demands_args jar scenario_path results_path consume_resources)
       = (if consume_resources then ''-c'' else '''')
   \<and> length (aggregated_demands_args jar scenario_path results_path consume_resources) = 10
   \<and> last (aggregated_demands_args jar scenario_path results_path consume_resources)
       = (if consume_resources then ''-c'' else '''')"
  by (simp add: raw_demands_args_def aggregated_demands_args_def)

text \<open>
  With the option false the command line ends with an empty argument.
\<close>

theorem empty_argument_when_false:
  "raw_demands_args ''/opt/spacenet.jar'' ''/tmp/tmp0/scenario.xml'' ''/tmp/tmp0/results.json'' False
     = [''java'', ''-jar'', ''/opt/spacenet.jar'', ''-h'', ''demands-raw'', ''-i'',
        ''/tmp/tmp0/scenario.xml'', ''-o'', ''/tmp/tmp0/results.json'', '''']
   \<and> [] \<in> set (aggregated_demands_args ''/opt/spacenet.jar'' ''/tmp/tmp0/scenario.xml''
        ''/tmp/tmp0/results.json'' False)"
  by (simp add: raw_demands_args_def aggregated_demands_args_def)

subsection \<open>The staging path\<close>

text \<open>
  The endpoints use \<open>write_file\<close> for the scenario and for nothing else: they are the
  same under a system that differs in how it writes any other file.
\<close>

lemma check_output_write_file:
  "check_output (os\<lparr>write_file := f\<rparr>) args tmo w = check_output os args tmo w"
  by (simp add: check_output_def split: sum.splits timeout.splits prod.splits outcome.splits)

lemma raw_demands_other_write:
  assumes "mkdtemp os w = (tempdir, w1)"
    and "f (os_path_join tempdir filename) content w1
          = write_file os (os_path_join tempdir filename) content w1"
  shows "analyze_raw_demands (os\<lparr>write_file := f\<rparr>) cfg filename content consume_resources w
          = analyze_raw_demands os cfg filename content consume_resources w"
  using assms
  by (cases "write_file os (os_path_join tempdir filename) content w1")
    (simp_all add: analyze_raw_demands_def TemporaryDirectory_def Let_def
      check_output_write_file split: prod.splits completed.splits sum.splits)

lemma aggregated_demands_other_write:
  assumes "mkdtemp os w = (tempdir, w1)"
    and "f (os_path_join tempdir filename) content w1
          = write_file os (os_path_join tempdir filename) content w1"
  shows "analyze_aggregated_demands (os\<lparr>write_file := f\<rparr>) cfg filename content
            consume_resources w
          = analyze_aggregated_demands os cfg filename content consume_resources w"
  using assms
  by (cases "write_file os (os_path_join tempdir filename) content w1")
    (simp_all add: analyze_aggregated_demands_def TemporaryDirectory_def Let_def
      check_output_write_file split: prod.splits completed.splits sum.splits)

text \<open>
  C4 (as the code has it). Neither endpoint changes the filename hint. The scenario is
  written once, at \<open>os.path.join(tempdir, filename)\<close>: at the hint itself when the hint
  starts with a separator, and otherwise at the working directory, a separator and the
  hint, with the separators and \<open>..\<close> components of the hint kept. When that write
  fails, the request fails with its error, the working directory is removed and nothing is
  staged. When it succeeds, the engine is started with that path as its input. No other
  path is written.
\<close>

theorem hint_staged_unsanitized:
  assumes "mkdtemp os w = (tempdir, w1)"
  shows "(take 1 filename = ''/'' \<longrightarrow> os_path_join tempdir filename = filename)
   \<and> (take 1 filename \<noteq> ''/'' \<and> tempdir \<noteq> [] \<and> last tempdir \<noteq> CHR ''/'' \<longrightarrow>
        os_path_join tempdir filename = tempdir @ ''/'' @ filename)
   \<and> (write_file os (os_path_join tempdir filename) content w1 = Inl e \<longrightarrow>
        analyze_raw_demands os cfg filename content consume_resources w
          = (Inl e, rmtree os tempdir w1)
        \<and> analyze_aggregated_demands os cfg filename content consume_resources w
          = (Inl e, rmtree os tempdir w1))
   \<and> (write_file os (os_path_join tempdir filename) content w1 = Inr staged
        \<and> popen os (raw_demands_args (spacenet_path cfg) (os_path_join tempdir filename)
             (os_path_join tempdir ''results.json'') consume_resources) staged = Inl e \<longrightarrow>
        analyze_raw_demands os cfg filename content consume_resources w
          = (Inl e, rmtree os tempdir staged))
   \<and> (write_file os (os_path_join tempdir filename) content w1 = Inr staged
        \<and> popen os (aggregated_demands_args (spacenet_path cfg) (os_path_join tempdir filename)
             (os_path_join tempdir ''results.json'') consume_resources) staged = Inl e \<longrightarrow>
        analyze_aggregated_demands os cfg filename content consume_resources w
          = (Inl e, rmtree os tempdir staged))
   \<and> (f (os_path_join tempdir filename) content w1
          = write_file os (os_path_join tempdir filename) content w1 \<longrightarrow>
        analyze_raw_demands (os\<lparr>write_file := f\<rparr>) cfg filename content consume_resources w
          = analyze_raw_demands os cfg filename content consume_resources w
        \<and> analyze_aggregated_demands (os\<lparr>write_file := f\<rparr>) cfg filename content
            consume_resources w
          = analyze_aggregated_demands os cfg filename content consume_resources w)"
proof (intro conjI impI)
  show "os_path_join tempdir filename = filename" if "take 1 filename = ''/''"
    using that by (simp add: os_path_join_def)
  show "os_path_join tempdir filename = tempdir @ ''/'' @ filename"
    if "take 1 filename \<noteq> ''/'' \<and> tempdir \<noteq> [] \<and> last tempdir \<noteq> CHR ''/''"
    using that by (simp add: os_path_join_def)
  show "analyze_raw_demands os cfg filename content consume_resources w
      = (Inl e, rmtree os tempdir w1)"
    if "write_file os (os_path_join tempdir filename) content w1 = Inl e"
    using that assms by (simp add: analyze_raw_demands_def TemporaryDirectory_def Let_def)
  show "analyze_aggregated_demands os cfg filename content consume_resources w
      = (Inl e, rmtree os tempdir w1)"
    if "write_file os (os_path_join tempdir filename) content w1 = Inl e"
    using that assms by (simp add: analyze_aggregated_demands_def TemporaryDirectory_def Let_def)
  show "analyze_raw_demands os cfg filename content consume_resources w
      = (Inl e, rmtree os tempdir staged)"
    if "write_file os (os_path_join tempdir filename) content w1 = Inr staged
        \<and> popen os (raw_demands_args (spacenet_path cfg) (os_path_join tempdir filename)
             (os_path_join tempdir ''results.json'') consume_resources) staged = Inl e"
    using that assms
    by (simp add: analyze_raw_demands_def TemporaryDirectory_def Let_def check_output_def)
  show "analyze_aggregated_demands os cfg filename content consume_resources w
      = (Inl e, rmtree os tempdir staged)"
    if "write_file os (os_path_join tempdir filename) content w1 = Inr staged
        \<and> popen os (aggregated_demands_args (spacenet_path cfg) (os_path_join tempdir filename)
             (os_path_join tempdir ''results.json'') consume_resources) staged = Inl e"
    using that assms
    by (simp add: analyze_aggregated_demands_def TemporaryDirectory_def Let_def check_output_def)
  show "analyze_raw_demands (os\<lparr>write_file := f\<rparr>) cfg filename content consume_resources w
      = analyze_raw_demands os cfg filename content consume_resources w"
    if "f (os_path_join tempdir filename) content w1
          = write_file os (os_path_join tempdir filename) content w1"
    using assms that by (rule raw_demands_other_write)
  show "analyze_aggregated_demands (os\<lparr>write_file := f\<rparr>) cfg filename content
            consume_resources w
      = analyze_aggregated_demands os cfg filename content consume_resources w"
    if "f (os_path_join tempdir filename) content w1
          = write_file os (os_path_join tempdir filename) content w1"
    using assms that by (rule aggregated_demands_other_write)
qed

text \<open>
  In the simulated system: the paths of an absolute hint and of a hint with \<open>..\<close>; a hint
  with a directory that does not exist, where the write raises FileNotFoundError and the
  request fails with it; a system without \<open>java\<close>, where the request fails after the
  scenario is staged; and a system that can write the scenario path only.
\<close>

theorem hint_staged_unsanitized_witness:
  "take 1 ''/tmp/stolen'' = ''/'' \<and> os_path_join ''/tmp/tmp0'' ''/tmp/stolen'' = ''/tmp/stolen''
   \<and> os_path_join ''/tmp/tmp0'' ''../stolen'' = ''/tmp/tmp0/../stolen''
   \<and> analyze_raw_demands (sim_os engine_writes_result)
        \<lparr>spacenet_path = ''/opt/spacenet.jar'', spacenet_timeout = TInt 10\<rparr>
        ''a/b.xml'' ''0123456789'' False sim_start
      = (Inl (FileNotFoundError ''/tmp/tmp0/a/b.xml''), sim_start)
   \<and> analyze_aggregated_demands (sim_os engine_writes_result)
        \<lparr>spacenet_path = ''/opt/spacenet.jar'', spacenet_timeout = TInt 10\<rparr>
        ''a/b.xml'' ''0123456789'' False sim_start
      = (Inl (FileNotFoundError ''/tmp/tmp0/a/b.xml''), sim_start)
   \<and> analyze_raw_demands
        ((sim_os engine_writes_result)\<lparr>popen := \<lambda>args w. Inl (FileNotFoundError ''java'')\<rparr>)
        \<lparr>spacenet_path = ''/opt/spacenet.jar'', spacenet_timeout = TInt 10\<rparr>
        ''scenario.xml'' ''0123456789'' False sim_start
      = (Inl (FileNotFoundError ''java''), sim_start)
   \<and> analyze_raw_demands
        ((sim_os engine_writes_result)\<lparr>write_file := \<lambda>path content w.
            if path = ''/tmp/tmp0/scenario.xml'' then sim_write path content w
            else Inl (OSError path)\<rparr>)
        \<lparr>spacenet_path = ''/opt/spacenet.jar'', spacenet_timeout = TInt 10\<rparr>
        ''scenario.xml'' ''0123456789'' False sim_start
      = analyze_raw_demands (sim_os engine_writes_result)
        \<lparr>spacenet_path = ''/opt/spacenet.jar'', spacenet_timeout = TInt 10\<rparr>
        ''scenario.xml'' ''0123456789'' False sim_start"
proof -
  let ?os = "sim_os engine_writes_result"
  let ?down = "?os\<lparr>popen := \<lambda>args w. Inl (FileNotFoundError ''java'')\<rparr>"
  let ?cfg = "\<lparr>spacenet_path = ''/opt/spacenet.jar'', spacenet_timeout = TInt 10\<rparr>"
  let ?w1 = "sim_start\<lparr>sim_dirs := ''/tmp/tmp0'' # sim_dirs sim_start\<rparr>"
  let ?w2 = "?w1\<lparr>sim_files := [(''/tmp/tmp0/scenario.xml'', ''0123456789'')]\<rparr>"
  let ?f = "\<lambda>path content w. if path = ''/tmp/tmp0/scenario.xml'' then sim_write path content w
      else Inl (OSError path)"
  note sim_defs = sim_os_def sim_start_def sim_write_def locate_def path_of_def os_path_join_def
  have tmp: "mkdtemp ?os sim_start = (''/tmp/tmp0'', ?w1)"
    and tmp_down: "mkdtemp ?down sim_start = (''/tmp/tmp0'', ?w1)"
    by (simp_all add: sim_os_def)
  have absolute: "take 1 ''/tmp/stolen'' = ''/''"
    by simp
  have relative: "take 1 ''../stolen'' \<noteq> ''/'' \<and> ''/tmp/tmp0'' \<noteq> [] \<and> last ''/tmp/tmp0'' \<noteq> CHR ''/''"
    by simp
  have refused: "write_file ?os (os_path_join ''/tmp/tmp0'' ''a/b.xml'') ''0123456789'' ?w1
      = Inl (FileNotFoundError ''/tmp/tmp0/a/b.xml'')"
    by (simp add: sim_defs)
  have written: "write_file ?down (os_path_join ''/tmp/tmp0'' ''scenario.xml'') ''0123456789'' ?w1
      = Inr ?w2"
    by (simp add: sim_defs)
  have no_java: "popen ?down args ?w2 = Inl (FileNotFoundError ''java'')" for args
    by simp
  have same: "?f (os_path_join ''/tmp/tmp0'' ''scenario.xml'') ''0123456789'' ?w1
      = write_file ?os (os_path_join ''/tmp/tmp0'' ''scenario.xml'') ''0123456789'' ?w1"
    by (simp add: sim_os_def os_path_join_def)
  have removed: "rmtree ?os ''/tmp/tmp0'' ?w1 = sim_start" "rmtree ?down ''/tmp/tmp0'' ?w2 = sim_start"
    by (simp_all add: sim_os_def sim_start_def)
  have 1: "os_path_join ''/tmp/tmp0'' ''/tmp/stolen'' = ''/tmp/stolen''"
    using hint_staged_unsanitized [OF tmp, where filename = "''/tmp/stolen''"] absolute by simp
  have 2: "os_path_join ''/tmp/tmp0'' ''../stolen'' = ''/tmp/tmp0/../stolen''"
    using hint_staged_unsanitized [OF tmp, where filename = "''../stolen''"] relative by simp
  have 3: "analyze_raw_demands ?os ?cfg ''a/b.xml'' ''0123456789'' False sim_start
      = (Inl (FileNotFoundError ''/tmp/tmp0/a/b.xml''), sim_start)"
    "analyze_aggregated_demands ?os ?cfg ''a/b.xml'' ''0123456789'' False sim_start
      = (Inl (FileNotFoundError ''/tmp/tmp0/a/b.xml''), sim_start)"
    using hint_staged_unsanitized [OF tmp, where filename = "''a/b.xml''"
        and content = "''0123456789''" and e = "FileNotFoundError ''/tmp/tmp0/a/b.xml''"
        and cfg = ?cfg and consume_resources = False]
      refused removed
    by simp_all
  have 4: "analyze_raw_demands ?down ?cfg ''scenario.xml'' ''0123456789'' False sim_start
      = (Inl (FileNotFoundError ''java''), sim_start)"
    using hint_staged_unsanitized [OF tmp_down, where filename = "''scenario.xml''"
        and content = "''0123456789''" and e = "FileNotFoundError ''java''" and staged = ?w2
        and cfg = ?cfg and consume_resources = False]
      written no_java removed
    by simp
  have 5: "analyze_raw_demands (?os\<lparr>write_file := ?f\<rparr>) ?cfg ''scenario.xml'' ''0123456789''
        False sim_start
      = analyze_raw_demands ?os ?cfg ''scenario.xml'' ''0123456789'' False sim_start"
    using hint_staged_unsanitized [OF tmp, where filename = "''scenario.xml''"
        and content = "''0123456789''" and f = ?f and cfg = ?cfg and consume_resources = False]
      same
    by simp
  show ?thesis
    using absolute 1 2 3 4 5 by (intro conjI)
qed

text \<open>
  An upload named \<open>/tmp/stolen\<close>, and one named \<open>../stolen\<close>, is written to
  \<open>/tmp/stolen\<close>, which is not in the working directory \<open>/tmp/tmp0\<close> and is still
  there when the working directory has been removed.
\<close>

theorem staged_outside_working_area:
  "\<not> prefix ''/tmp/tmp0/'' ''/tmp/stolen''
   \<and> analyze_raw_demands (sim_os engine_writes_result)
        \<lparr>spacenet_path = ''/opt/spacenet.jar'', spacenet_timeout = TInt 10\<rparr>
        ''/tmp/stolen'' ''0123456789'' False sim_start
      = (Inr \<lparr>demands = []\<rparr>,
         \<lparr>sim_dirs = [''/tmp''], sim_files = [(''/tmp/stolen'', ''0123456789'')],
          sim_child = None, sim_killed = False\<rparr>)
   \<and> analyze_aggregated_demands (sim_os engine_writes_result)
        \<lparr>spacenet_path = ''/opt/spacenet.jar'', spacenet_timeout = TInt 10\<rparr>
        ''../stolen'' ''0123456789'' False sim_start
      = (Inr \<lparr>nodes = [], edges = []\<rparr>,
         \<lparr>sim_dirs = [''/tmp''], sim_files = [(''/tmp/stolen'', ''0123456789'')],
          sim_child = None, sim_killed = False\<rparr>)"
  by (simp add: run_defs engine_writes_result_def RawDemandsAnalysis_validate_def
      AggregatedDemandsAnalysis_validate_def with_default_def field_value_def dict_get_def)

subsection \<open>A missing output file\<close>

text \<open>
  C5 (as the code has it). When the engine exits with code zero and the results file is
  not there, opening it raises FileNotFoundError. Neither endpoint catches it: the request
  fails with that exception, not with the HTTPException of status 422 that an engine failure
  gives, and the working directory is removed.
\<close>

theorem missing_output_not_classified:
  assumes "mkdtemp os w = (tempdir, w1)"
    and "write_file os (os_path_join tempdir filename) content w1 = Inr w2"
    and "spacenet_timeout cfg = TInt t"
    and "communicate os t w3 = (Exited 0 output, w4)"
    and "read_file os (os_path_join tempdir ''results.json'') w4 = Inl (FileNotFoundError p)"
  shows "(popen os (raw_demands_args (spacenet_path cfg) (os_path_join tempdir filename)
             (os_path_join tempdir ''results.json'') consume_resources) w2 = Inr w3 \<longrightarrow>
          analyze_raw_demands os cfg filename content consume_resources w
            = (Inl (FileNotFoundError p), rmtree os tempdir w4))
       \<and> (popen os (aggregated_demands_args (spacenet_path cfg) (os_path_join tempdir filename)
             (os_path_join tempdir ''results.json'') consume_resources) w2 = Inr w3 \<longrightarrow>
          analyze_aggregated_demands os cfg filename content consume_resources w
            = (Inl (FileNotFoundError p), rmtree os tempdir w4))"
  using assms
  by (simp add: analyze_raw_demands_def analyze_aggregated_demands_def TemporaryDirectory_def
      check_output_def Let_def)

theorem missing_output_not_classified_witness:
  "analyze_raw_demands (sim_os engine_writes_nothing)
     \<lparr>spacenet_path = ''/opt/spacenet.jar'', spacenet_timeout = TInt 10\<rparr>
     ''scenario.xml'' ''0123456789'' False sim_start
   = (Inl (FileNotFoundError ''/tmp/tmp0/results.json''), sim_start)
   \<and> analyze_aggregated_demands (sim_os engine_writes_nothing)
     \<lparr>spacenet_path = ''/opt/spacenet.jar'', spacenet_timeout = TInt 10\<rparr>
     ''scenario.xml'' ''0123456789'' False sim_start
   = (Inl (FileNotFoundError ''/tmp/tmp0/results.json''), sim_start)"
proof -
  let ?os = "sim_os engine_writes_nothing"
  let ?cfg = "\<lparr>spacenet_path = ''/opt/spacenet.jar'', spacenet_timeout = TInt 10\<rparr>"
  let ?w1 = "sim_start\<lparr>sim_dirs := ''/tmp/tmp0'' # sim_dirs sim_start\<rparr>"
  let ?w2 = "?w1\<lparr>sim_files := [(''/tmp/tmp0/scenario.xml'', ''0123456789'')]\<rparr>"
  have 1: "mkdtemp ?os sim_start = (''/tmp/tmp0'', ?w1)"
    by (simp add: sim_os_def)
  have 2: "write_file ?os (os_path_join ''/tmp/tmp0'' ''scenario.xml'') ''0123456789'' ?w1 = Inr ?w2"
    by (simp add: sim_os_def os_path_join_def sim_start_def sim_write_def locate_def path_of_def)
  have 3: "spacenet_timeout ?cfg = TInt 10"
    by simp
  let ?raw = "raw_demands_args ''/opt/spacenet.jar'' ''/tmp/tmp0/scenario.xml''
      ''/tmp/tmp0/results.json'' False"
  let ?agg = "aggregated_demands_args ''/opt/spacenet.jar'' ''/tmp/tmp0/scenario.xml''
      ''/tmp/tmp0/results.json'' False"
  have 4: "communicate ?os 10 (?w2\<lparr>sim_child := Some args\<rparr>)
      = (Exited 0 ''done'', ?w2\<lparr>sim_child := None\<rparr>)" for args
    by (simp add: sim_os_def engine_writes_nothing_def)
  have 5: "read_file ?os (os_path_join ''/tmp/tmp0'' ''results.json'') (?w2\<lparr>sim_child := None\<rparr>)
      = Inl (FileNotFoundError ''/tmp/tmp0/results.json'')"
    by (simp add: sim_os_def os_path_join_def sim_start_def sim_write_def locate_def path_of_def)
  have 6: "popen ?os args ?w2 = Inr (?w2\<lparr>sim_child := Some args\<rparr>)" for args
    by (simp add: sim_os_def)
  have 7: "rmtree ?os ''/tmp/tmp0'' (?w2\<lparr>sim_child := None\<rparr>) = sim_start"
    by (simp add: sim_os_def sim_start_def)
  have 8: "os_path_join ''/tmp/tmp0'' ''scenario.xml'' = ''/tmp/tmp0/scenario.xml''"
    "os_path_join ''/tmp/tmp0'' ''results.json'' = ''/tmp/tmp0/results.json''"
    by (simp_all add: os_path_join_def)
  show ?thesis
    using missing_output_not_classified [OF 1 2 3 4 [of ?raw] 5, where consume_resources = False]
      missing_output_not_classified [OF 1 2 3 4 [of ?agg] 5, where consume_resources = False]
      6 7 8
    by simp
qed

text \<open>
  The simulated engine that exits with zero and writes nothing: the request ends in
  FileNotFoundError, and in no HTTPException of status 422.
\<close>

theorem missing_output_file_not_found:
  "fst (analyze_raw_demands (sim_os engine_writes_nothing)
     \<lparr>spacenet_path = ''/opt/spacenet.jar'', spacenet_timeout = TInt 10\<rparr>
     ''scenario.xml'' ''0123456789'' False sim_start)
   = Inl (FileNotFoundError ''/tmp/tmp0/results.json'')
   \<and> (\<forall>detail. fst (analyze_raw_demands (sim_os engine_writes_nothing)
     \<lparr>spacenet_path = ''/opt/spacenet.jar'', spacenet_timeout = TInt 10\<rparr>
     ''scenario.xml'' ''0123456789'' False sim_start) \<noteq> Inl (HTTPException 422 detail))"
  by (simp add: run_defs engine_writes_nothing_def)

subsection \<open>The timeout\<close>

text \<open>
  With a timeout that is a number, an engine that runs out of time is killed, the request
  fails with status 422 and a detail that shows the number, and the working directory is
  removed. With the default configuration the detail is \<open>Timeout exceeded (10 s)\<close>.
\<close>

lemma timeout_classified:
  assumes "mkdtemp os w = (tempdir, w1)"
    and "write_file os (os_path_join tempdir filename) content w1 = Inr w2"
    and "popen os (raw_demands_args (spacenet_path cfg) (os_path_join tempdir filename)
           (os_path_join tempdir ''results.json'') consume_resources) w2 = Inr w3"
    and "spacenet_timeout cfg = TInt t"
    and "communicate os t w3 = (Expired, w4)"
  shows "analyze_raw_demands os cfg filename content consume_resources w
     = (Inl (HTTPException 422 (''Timeout exceeded ('' @ str_int t @ '' s)'')),
        rmtree os tempdir (kill os w4))"
  using assms
  by (simp add: analyze_raw_demands_def TemporaryDirectory_def check_output_def Let_def)

lemma default_timeout_detail:
  "startup (map_of [(''SPACENET_PATH'', ''/opt/spacenet.jar'')]) (\<lambda>p. True)
   = Inr \<lparr>spacenet_path = ''/opt/spacenet.jar'', spacenet_timeout = TInt 10\<rparr>
   \<and> analyze_raw_demands (sim_os engine_sleeps)
     \<lparr>spacenet_path = ''/opt/spacenet.jar'', spacenet_timeout = TInt 10\<rparr>
     ''scenario.xml'' ''0123456789'' False sim_start
   = (Inl (HTTPException 422 ''Timeout exceeded (10 s)''),
      \<lparr>sim_dirs = [''/tmp''], sim_files = [], sim_child = None, sim_killed = True\<rparr>)"
  by (simp add: startup_def run_defs engine_sleeps_def str_int_def str_nat.simps [of 10]
      str_nat.simps [of "Suc 0"])

text \<open>
  A timeout read from the environment is a string, and \<open>check_output\<close> raises a
  TypeError on it whatever the engine does.
\<close>

lemma timeout_string_raises:
  assumes "mkdtemp os w = (tempdir, w1)"
    and "write_file os (os_path_join tempdir filename) content w1 = Inr w2"
    and "popen os (raw_demands_args (spacenet_path cfg) (os_path_join tempdir filename)
           (os_path_join tempdir ''results.json'') consume_resources) w2 = Inr w3"
    and "spacenet_timeout cfg = TStr s"
  shows "analyze_raw_demands os cfg filename content consume_resources w
     = (Inl TypeError, rmtree os tempdir (kill os w3))"
  using assms
  by (simp add: analyze_raw_demands_def TemporaryDirectory_def check_output_def Let_def)

text \<open>
  C7 (where the code fails it). The timeout configured as 2 seconds, with an engine that
  runs for an hour: the request does not fail with a timeout error that mentions 2, it
  fails with the TypeError. The child is killed and the working directory is removed.
\<close>

theorem configured_timeout_type_error:
  "startup (map_of [(''SPACENET_PATH'', ''/opt/spacenet.jar''), (''SPACENET_TIMEOUT'', ''2'')])
     (\<lambda>p. True)
   = Inr \<lparr>spacenet_path = ''/opt/spacenet.jar'', spacenet_timeout = TStr ''2''\<rparr>
   \<and> analyze_raw_demands (sim_os engine_sleeps)
     \<lparr>spacenet_path = ''/opt/spacenet.jar'', spacenet_timeout = TStr ''2''\<rparr>
     ''scenario.xml'' ''0123456789'' False sim_start
   = (Inl TypeError,
      \<lparr>sim_dirs = [''/tmp''], sim_files = [], sim_child = None, sim_killed = True\<rparr>)"
  by (simp add: startup_def run_defs)

end
